theory Spec2Isabelle
  imports Complex_Main "HOL-Library.Sublist"
begin

section \<open>Decoded JSON and the Python operations applied to it\<close>

text \<open>
  \<^verbatim>\<open>insights.py\<close> works on the values that \<^verbatim>\<open>response.json()\<close> returns. A decoded
  object is kept as the list of its key/value pairs, in order, and is read with
  \<open>map_of\<close>; keys are distinct in a decoded document. Numbers are exact (\<open>real\<close>):
  the rounding of Python's floats is not modelled. Strings are byte strings, and the
  case mappings below act on ASCII letters only.
\<close>

datatype json =
    JNull
  | JBool bool
  | JNum real
  | JStr string
  | JArr "json list"
  | JObj "(string \<times> json) list"

datatype py_error =
    AttributeError
  | TypeError
  | IndexError
  | KeyError
  | JSONDecodeError
  | HTTPError
  | ConnectionError
  | AuthError

definition ebind :: "'e + 'a \<Rightarrow> ('a \<Rightarrow> 'e + 'b) \<Rightarrow> 'e + 'b" where
  "ebind m f = (case m of Inl e \<Rightarrow> Inl e | Inr x \<Rightarrow> f x)"

text \<open>Truth value of a decoded value, as \<^verbatim>\<open>if x\<close> and \<^verbatim>\<open>not x\<close> test it.\<close>

fun py_truthy :: "json \<Rightarrow> bool" where
  "py_truthy JNull = False"
| "py_truthy (JBool b) = b"
| "py_truthy (JNum r) = (r \<noteq> 0)"
| "py_truthy (JStr s) = (s \<noteq> [])"
| "py_truthy (JArr xs) = (xs \<noteq> [])"
| "py_truthy (JObj kvs) = (kvs \<noteq> [])"

text \<open>\<^verbatim>\<open>x.get(k, d)\<close>: only a dict has the method.\<close>

fun py_get :: "json \<Rightarrow> string \<Rightarrow> json \<Rightarrow> py_error + json" where
  "py_get (JObj kvs) k d = Inr (case map_of kvs k of None \<Rightarrow> d | Some v \<Rightarrow> v)"
| "py_get _ k d = Inl AttributeError"

text \<open>\<^verbatim>\<open>for x in xs\<close>: a list yields its elements, a string its characters, a dict its keys.\<close>

fun py_iter :: "json \<Rightarrow> py_error + json list" where
  "py_iter (JArr xs) = Inr xs"
| "py_iter (JStr s) = Inr (map (\<lambda>c. JStr [c]) s)"
| "py_iter (JObj kvs) = Inr (map (\<lambda>kv. JStr (fst kv)) kvs)"
| "py_iter _ = Inl TypeError"

fun py_len :: "json \<Rightarrow> py_error + nat" where
  "py_len (JArr xs) = Inr (length xs)"
| "py_len (JStr s) = Inr (length s)"
| "py_len (JObj kvs) = Inr (length kvs)"
| "py_len _ = Inl TypeError"

text \<open>\<^verbatim>\<open>sub in s\<close> on two strings: \<open>sub\<close> occurs in \<open>s\<close> as a contiguous run.\<close>

fun py_in_str :: "string \<Rightarrow> string \<Rightarrow> bool" where
  "py_in_str sub [] = (sub = [])"
| "py_in_str sub (c # cs) = (prefix sub (c # cs) \<or> py_in_str sub cs)"

text \<open>\<^verbatim>\<open>"k" in x\<close> for a string literal \<open>k\<close>.\<close>

fun py_in :: "string \<Rightarrow> json \<Rightarrow> py_error + bool" where
  "py_in k (JObj kvs) = Inr (map_of kvs k \<noteq> None)"
| "py_in k (JArr xs) = Inr (List.member xs (JStr k))"
| "py_in k (JStr s) = Inr (py_in_str k s)"
| "py_in k _ = Inl TypeError"

text \<open>\<^verbatim>\<open>x[0]\<close> and \<^verbatim>\<open>x["k"]\<close>.\<close>

fun py_item0 :: "json \<Rightarrow> py_error + json" where
  "py_item0 (JArr []) = Inl IndexError"
| "py_item0 (JArr (x # xs)) = Inr x"
| "py_item0 (JStr []) = Inl IndexError"
| "py_item0 (JStr (c # cs)) = Inr (JStr [c])"
| "py_item0 (JObj kvs) = Inl KeyError"
| "py_item0 _ = Inl TypeError"

fun py_item :: "json \<Rightarrow> string \<Rightarrow> py_error + json" where
  "py_item (JObj kvs) k = (case map_of kvs k of None \<Rightarrow> Inl KeyError | Some v \<Rightarrow> Inr v)"
| "py_item _ k = Inl TypeError"

text \<open>\<^verbatim>\<open>s.lower()\<close> and \<^verbatim>\<open>s.capitalize()\<close>.\<close>

definition char_lower :: "char \<Rightarrow> char" where
  "char_lower c =
     (case map_of (zip ''ABCDEFGHIJKLMNOPQRSTUVWXYZ'' ''abcdefghijklmnopqrstuvwxyz'') c of
        None \<Rightarrow> c | Some d \<Rightarrow> d)"

definition char_upper :: "char \<Rightarrow> char" where
  "char_upper c =
     (case map_of (zip ''abcdefghijklmnopqrstuvwxyz'' ''ABCDEFGHIJKLMNOPQRSTUVWXYZ'') c of
        None \<Rightarrow> c | Some d \<Rightarrow> d)"

definition lower :: "string \<Rightarrow> string" where
  "lower s = map char_lower s"

fun capitalize :: "string \<Rightarrow> string" where
  "capitalize [] = []"
| "capitalize (c # cs) = char_upper c # lower cs"

fun py_lower :: "json \<Rightarrow> py_error + string" where
  "py_lower (JStr s) = Inr (lower s)"
| "py_lower _ = Inl AttributeError"

text \<open>\<^verbatim>\<open>s.split('/')\<close>: never empty; the empty string splits into one empty segment.\<close>

fun split_slash :: "string \<Rightarrow> string list" where
  "split_slash [] = [[]]"
| "split_slash (c # cs) =
     (if c = CHR ''/'' then [] # split_slash cs
      else (case split_slash cs of [] \<Rightarrow> [[c]] | seg # segs \<Rightarrow> (c # seg) # segs))"

text \<open>\<^verbatim>\<open>x.split('/')[4]\<close>: only a string has \<^verbatim>\<open>split\<close>; a short list raises.\<close>

fun segment4 :: "json \<Rightarrow> py_error + string" where
  "segment4 (JStr s) =
     (let segs = split_slash s in if 4 < length segs then Inr (segs ! 4) else Inl IndexError)"
| "segment4 _ = Inl AttributeError"

text \<open>Numbers under \<^verbatim>\<open>+\<close>: a bool counts as 0 or 1, anything else is a \<^verbatim>\<open>TypeError\<close>.\<close>

fun py_num :: "json \<Rightarrow> py_error + real" where
  "py_num (JNum r) = Inr r"
| "py_num (JBool b) = Inr (if b then 1 else 0)"
| "py_num _ = Inl TypeError"

section \<open>The environment: token provider and HTTP transport\<close>

record response =
  status_code :: nat
  body :: "json option"

text \<open>
  \<open>token_provider\<close> is what \<^verbatim>\<open>DefaultAzureCredential().get_token(...)\<close> does,
  \<open>requests_get\<close> is \<^verbatim>\<open>requests.get(url, headers=headers)\<close> (\<open>Inl\<close> when the call
  itself raises, a response with its status otherwise; \<open>body\<close> is \<open>None\<close> when
  \<^verbatim>\<open>response.json()\<close> would raise), and \<open>py_repr\<close> is the text an f-string prints for
  a number, a list or a dict.
\<close>

record world =
  token_provider :: "py_error + string"
  requests_get :: "string \<Rightarrow> (string \<times> string) list \<Rightarrow> py_error + response"
  py_repr :: "json \<Rightarrow> string"

definition response_ok :: "response \<Rightarrow> bool" where
  "response_ok r = (\<not> (400 \<le> status_code r \<and> status_code r < 600))"

definition raise_for_status :: "response \<Rightarrow> py_error + unit" where
  "raise_for_status r = (if 400 \<le> status_code r \<and> status_code r < 600 then Inl HTTPError else Inr ())"

definition response_json :: "response \<Rightarrow> py_error + json" where
  "response_json r = (case body r of None \<Rightarrow> Inl JSONDecodeError | Some j \<Rightarrow> Inr j)"

fun fstr :: "world \<Rightarrow> json \<Rightarrow> string" where
  "fstr w (JStr s) = s"
| "fstr w JNull = ''None''"
| "fstr w (JBool b) = (if b then ''True'' else ''False'')"
| "fstr w j = py_repr w j"

definition bearer :: "string \<Rightarrow> (string \<times> string) list" where
  "bearer token = [(''Authorization'', ''Bearer '' @ token)]"

section \<open>API configuration\<close>

definition subscription_id :: string where "subscription_id = ''YOUR_SUBSCRIPTION''"
definition resource_url :: string where "resource_url = ''https://management.azure.com/''"
definition api_version_vm :: string where "api_version_vm = ''2022-03-01''"
definition api_version_arc :: string where "api_version_arc = ''2022-03-10''"
definition api_version_metrics :: string where "api_version_metrics = ''2018-01-01''"
definition api_version_network :: string where "api_version_network = ''2023-05-01''"

definition get_token :: "world \<Rightarrow> py_error + string" where
  "get_token w = token_provider w"

text \<open>A \<^verbatim>\<open>for\<close> loop whose body may raise: the first exception ends it.\<close>

fun efold :: "('a \<Rightarrow> 's \<Rightarrow> 'e + 's) \<Rightarrow> 'a list \<Rightarrow> 's \<Rightarrow> 'e + 's" where
  "efold f [] s = Inr s"
| "efold f (x # xs) s = ebind (f x s) (efold f xs)"

section \<open>Storage accounts\<close>

definition storage_accounts_url :: "string \<Rightarrow> string" where
  "storage_accounts_url subscription =
     resource_url @ ''subscriptions/'' @ subscription
     @ ''/providers/Microsoft.Storage/storageAccounts?api-version=2021-09-01''"

definition get_storage_accounts :: "world \<Rightarrow> string \<Rightarrow> py_error + json" where
  "get_storage_accounts w subscription =
     ebind (get_token w) (\<lambda>token.
       let headers = bearer token;
           url = storage_accounts_url subscription
       in ebind (requests_get w url headers) (\<lambda>response.
          ebind (raise_for_status response) (\<lambda>_.
          ebind (response_json response) (\<lambda>data.
          py_get data ''value'' (JArr [])))))"

subsection \<open>Metric reduction\<close>

type_synonym metrics = "string \<rightharpoonup> real"

text \<open>
  \<^verbatim>\<open>sum(point.get(f, 0) for point in datapoints if point.get(f) is not None)\<close>, started
  at \<open>acc\<close>: the generator is consumed by \<^verbatim>\<open>sum\<close> point by point.
\<close>

fun sum_points :: "string \<Rightarrow> real \<Rightarrow> json list \<Rightarrow> py_error + real" where
  "sum_points f acc [] = Inr acc"
| "sum_points f acc (point # rest) =
     ebind (py_get point f JNull) (\<lambda>v.
       if v \<noteq> JNull
       then ebind (py_get point f (JNum 0)) (\<lambda>x.
            ebind (py_num x) (\<lambda>r. sum_points f (acc + r) rest))
       else sum_points f acc rest)"

text \<open>
  \<^verbatim>\<open>[point.get(f, 0) for point in datapoints if point.get(f) is not None]\<close>: the list
  is built before anything is added up.
\<close>

fun point_values :: "string \<Rightarrow> json list \<Rightarrow> py_error + json list" where
  "point_values f [] = Inr []"
| "point_values f (point # rest) =
     ebind (py_get point f JNull) (\<lambda>v.
       if v \<noteq> JNull
       then ebind (py_get point f (JNum 0)) (\<lambda>x.
            ebind (point_values f rest) (\<lambda>xs. Inr (x # xs)))
       else point_values f rest)"

fun py_sum :: "real \<Rightarrow> json list \<Rightarrow> py_error + real" where
  "py_sum acc [] = Inr acc"
| "py_sum acc (x # xs) = ebind (py_num x) (\<lambda>r. py_sum (acc + r) xs)"

text \<open>\<^verbatim>\<open>sum(values) / len(values) if values else 0\<close>.\<close>

definition mean_or_zero :: "json list \<Rightarrow> py_error + real" where
  "mean_or_zero values =
     (if values \<noteq> [] then ebind (py_sum 0 values) (\<lambda>s. Inr (s / real (length values)))
      else Inr 0)"

definition average_of :: "json \<Rightarrow> py_error + real" where
  "average_of datapoints =
     ebind (py_iter datapoints) (\<lambda>points.
     ebind (point_values ''average'' points) mean_or_zero)"

definition total_of :: "json \<Rightarrow> py_error + real" where
  "total_of datapoints = ebind (py_iter datapoints) (sum_points ''total'' 0)"

text \<open>
  The head of both loop bodies: the lower-cased metric name, and
  \<^verbatim>\<open>timeseries[0]["data"]\<close> when \<^verbatim>\<open>timeseries and "data" in timeseries[0]\<close> holds.
\<close>

definition metric_series :: "json \<Rightarrow> py_error + string \<times> json option" where
  "metric_series metric =
     ebind (py_get metric ''name'' (JObj [])) (\<lambda>n.
     ebind (py_get n ''value'' (JStr [])) (\<lambda>v.
     ebind (py_lower v) (\<lambda>mname.
     ebind (py_get metric ''timeseries'' (JArr [])) (\<lambda>timeseries.
       if py_truthy timeseries
       then ebind (py_item0 timeseries) (\<lambda>ts0.
            ebind (py_in ''data'' ts0) (\<lambda>has_data.
              if has_data
              then ebind (py_item ts0 ''data'') (\<lambda>datapoints. Inr (mname, Some datapoints))
              else Inr (mname, None)))
       else Inr (mname, None)))))"

definition capacity_step :: "json \<Rightarrow> metrics \<Rightarrow> py_error + metrics" where
  "capacity_step metric metrics =
     ebind (metric_series metric) (\<lambda>(mname, series).
       case series of
         None \<Rightarrow> Inr metrics
       | Some datapoints \<Rightarrow>
           if mname = ''usedcapacity''
           then ebind (average_of datapoints) (\<lambda>a. Inr (metrics(''UsedCapacity'' \<mapsto> a)))
           else Inr metrics)"

definition others_step :: "json \<Rightarrow> metrics \<Rightarrow> py_error + metrics" where
  "others_step metric metrics =
     ebind (metric_series metric) (\<lambda>(mname, series).
       case series of
         None \<Rightarrow> Inr metrics
       | Some datapoints \<Rightarrow>
           if mname = ''transactions''
           then ebind (total_of datapoints) (\<lambda>total. Inr (metrics(''Transactions'' \<mapsto> total)))
           else if mname \<in> set [''ingress'', ''egress'']
           then ebind (total_of datapoints) (\<lambda>total. Inr (metrics(capitalize mname \<mapsto> total)))
           else if mname = ''successe2elatency''
           then ebind (average_of datapoints) (\<lambda>a. Inr (metrics(''SuccessE2ELatency'' \<mapsto> a)))
           else if mname = ''successserverlatency''
           then ebind (average_of datapoints) (\<lambda>a. Inr (metrics(''SuccessServerLatency'' \<mapsto> a)))
           else if mname = ''availability''
           then ebind (average_of datapoints) (\<lambda>a. Inr (metrics(''Availability'' \<mapsto> a)))
           else Inr metrics)"

text \<open>
  One \<^verbatim>\<open>if response.ok:\<close> block: the metrics of the body are folded into the dict; a
  response that is not ok leaves the dict as it is.
\<close>

definition collect_response ::
  "(json \<Rightarrow> metrics \<Rightarrow> py_error + metrics) \<Rightarrow> response \<Rightarrow> metrics \<Rightarrow> py_error + metrics" where
  "collect_response step response metrics =
     (if response_ok response
      then ebind (response_json response) (\<lambda>data.
           ebind (py_get data ''value'' (JArr [])) (\<lambda>v.
           ebind (py_iter v) (\<lambda>ms. efold step ms metrics)))
      else Inr metrics)"

definition metrics_url :: "world \<Rightarrow> json \<Rightarrow> string" where
  "metrics_url w resource_id =
     resource_url @ fstr w resource_id @ ''/providers/microsoft.insights/metrics''
     @ ''?api-version='' @ api_version_metrics
     @ ''&timespan=P1D''
     @ ''&interval=PT1H''
     @ ''&metricnamespace=Microsoft.Storage/storageAccounts''"

definition url_capacity :: "world \<Rightarrow> json \<Rightarrow> string" where
  "url_capacity w resource_id =
     metrics_url w resource_id
     @ ''&metricnames=UsedCapacity''
     @ ''&aggregation=Average''"

definition url_metrics :: "world \<Rightarrow> json \<Rightarrow> string" where
  "url_metrics w resource_id =
     metrics_url w resource_id
     @ ''&metricnames=Transactions,Ingress,Egress,SuccessE2ELatency,SuccessServerLatency,Availability''
     @ ''&aggregation=Total,Average''
     @ ''&$filter=GeoType eq '' @ [CHR 0x27] @ ''Primary'' @ [CHR 0x27]"

text \<open>
  The result is paired with the URLs requested, in order, so that "no upstream call"
  can be said. \<open>Inr None\<close> is Python's \<^verbatim>\<open>return None\<close>. The \<^verbatim>\<open>timespan\<close> argument is
  never read.
\<close>

definition get_storage_account_metrics ::
  "world \<Rightarrow> json \<Rightarrow> string \<Rightarrow> json \<Rightarrow> string list \<times> (py_error + metrics option)" where
  "get_storage_account_metrics w storage_account token timespan =
     (case py_get storage_account ''id'' JNull of
        Inl e \<Rightarrow> ([], Inl e)
      | Inr resource_id \<Rightarrow>
          if \<not> py_truthy resource_id then ([], Inr None)
          else
            let headers = bearer token;
                u1 = url_capacity w resource_id;
                u2 = url_metrics w resource_id
            in (case requests_get w u1 headers of
                  Inl e \<Rightarrow> ([u1], Inl e)
                | Inr response_capacity \<Rightarrow>
                    (case collect_response capacity_step response_capacity Map.empty of
                       Inl e \<Rightarrow> ([u1], Inl e)
                     | Inr metrics1 \<Rightarrow>
                         (case requests_get w u2 headers of
                            Inl e \<Rightarrow> ([u1, u2], Inl e)
                          | Inr response_metrics \<Rightarrow>
                              (case collect_response others_step response_metrics metrics1 of
                                 Inl e \<Rightarrow> ([u1, u2], Inl e)
                               | Inr metrics2 \<Rightarrow> ([u1, u2], Inr (Some metrics2)))))))"

section \<open>Virtual machines\<close>

definition vms_url :: "string \<Rightarrow> string" where
  "vms_url subscription =
     resource_url @ ''subscriptions/'' @ subscription
     @ ''/providers/Microsoft.Compute/virtualMachines?api-version='' @ api_version_vm"

definition arc_machines_url :: "string \<Rightarrow> string" where
  "arc_machines_url subscription =
     resource_url @ ''subscriptions/'' @ subscription
     @ ''/providers/Microsoft.HybridCompute/machines?api-version='' @ api_version_arc"

definition get_vms :: "world \<Rightarrow> string \<Rightarrow> string \<Rightarrow> py_error + json" where
  "get_vms w subscription token =
     (let url = vms_url subscription;
          headers = bearer token
      in ebind (requests_get w url headers) (\<lambda>response.
         ebind (raise_for_status response) (\<lambda>_.
         ebind (response_json response) (\<lambda>data.
         py_get data ''value'' (JArr [])))))"

definition get_arc_machines :: "world \<Rightarrow> string \<Rightarrow> string \<Rightarrow> py_error + json" where
  "get_arc_machines w subscription token =
     (let url = arc_machines_url subscription;
          headers = bearer token
      in ebind (requests_get w url headers) (\<lambda>response.
         ebind (raise_for_status response) (\<lambda>_.
         ebind (response_json response) (\<lambda>data.
         py_get data ''value'' (JArr [])))))"

text \<open>
  The loop over \<^verbatim>\<open>data.get("statuses", [])\<close>: \<open>Some s\<close> when a \<^verbatim>\<open>return\<close> inside the loop
  is reached, \<open>None\<close> when the loop runs out.
\<close>

fun scan_statuses :: "json list \<Rightarrow> py_error + string option" where
  "scan_statuses [] = Inr None"
| "scan_statuses (status # rest) =
     ebind (py_get status ''code'' (JStr [])) (\<lambda>c.
     ebind (py_lower c) (\<lambda>code.
       if py_in_str ''powerstate'' code
       then Inr (Some (if py_in_str ''running'' code then ''running'' else ''stopped''))
       else scan_statuses rest))"

definition instance_view_url :: "world \<Rightarrow> json \<Rightarrow> string \<Rightarrow> string" where
  "instance_view_url w resource_id vm_type =
     (if vm_type = ''Compute''
      then resource_url @ fstr w resource_id @ ''/instanceView?api-version='' @ api_version_vm
      else resource_url @ fstr w resource_id @ ''/instanceView?api-version='' @ api_version_arc)"

text \<open>The body of the \<^verbatim>\<open>try\<close> of \<^verbatim>\<open>get_vm_power_state\<close>, and the function around it.\<close>

definition power_state_try :: "world \<Rightarrow> json \<Rightarrow> string \<Rightarrow> string \<Rightarrow> py_error + string" where
  "power_state_try w resource_id token vm_type =
     ebind (requests_get w (instance_view_url w resource_id vm_type) (bearer token)) (\<lambda>response.
       if status_code response = 200
       then ebind (response_json response) (\<lambda>data.
              if vm_type = ''Compute''
              then ebind (py_get data ''statuses'' (JArr [])) (\<lambda>sts.
                   ebind (py_iter sts) (\<lambda>statuses.
                   ebind (scan_statuses statuses) (\<lambda>found.
                     case found of Some s \<Rightarrow> Inr s | None \<Rightarrow> Inr ''unknown'')))
              else ebind (py_get data ''status'' (JObj [])) (\<lambda>st.
                   ebind (py_get st ''status'' (JStr [])) (\<lambda>v.
                   ebind (py_lower v) (\<lambda>status.
                     Inr (if status = ''connected'' then ''running'' else ''stopped'')))))
       else Inr ''unknown'')"

definition get_vm_power_state :: "world \<Rightarrow> json \<Rightarrow> string \<Rightarrow> string \<Rightarrow> string" where
  "get_vm_power_state w resource_id token vm_type =
     (case power_state_try w resource_id token vm_type of
        Inl e \<Rightarrow> ''unknown''
      | Inr s \<Rightarrow> s)"

text \<open>The loop over the extensions: \<open>True\<close> when \<^verbatim>\<open>return "Enabled"\<close> is reached.\<close>

fun scan_extensions :: "json list \<Rightarrow> py_error + bool" where
  "scan_extensions [] = Inr False"
| "scan_extensions (ext # rest) =
     ebind (py_get ext ''name'' (JStr [])) (\<lambda>n.
     ebind (py_lower n) (\<lambda>ext_name.
       if py_in_str ''azuremonitor'' ext_name \<and> py_in_str ''agent'' ext_name
       then ebind (py_get ext ''properties'' (JObj [])) (\<lambda>props.
            ebind (py_get props ''provisioningState'' JNull) (\<lambda>state.
              if state = JStr ''Succeeded'' then Inr True else scan_extensions rest))
       else scan_extensions rest))"

definition insights_status_try :: "world \<Rightarrow> json \<Rightarrow> string \<Rightarrow> string \<Rightarrow> py_error + string" where
  "insights_status_try w resource_id token vm_type =
     (let headers = bearer token;
          api_version = (if vm_type = ''Compute'' then api_version_vm else api_version_arc);
          url = resource_url @ fstr w resource_id @ ''/extensions?api-version='' @ api_version;
          dcr_url = resource_url @ fstr w resource_id
            @ ''/providers/Microsoft.Insights/dataCollectionRuleAssociations?api-version=2021-09-01-preview''
      in ebind (requests_get w url headers) (\<lambda>response.
         ebind (if status_code response = 200
                then ebind (response_json response) (\<lambda>data.
                     ebind (py_get data ''value'' (JArr [])) (\<lambda>v.
                     ebind (py_iter v) scan_extensions))
                else Inr False) (\<lambda>enabled.
           if enabled then Inr ''Enabled''
           else ebind (requests_get w dcr_url headers) (\<lambda>response2.
                ebind (if status_code response2 = 200
                       then ebind (response_json response2) (\<lambda>data.
                            ebind (py_get data ''value'' (JArr [])) (\<lambda>v. Inr (py_truthy v)))
                       else Inr False) (\<lambda>associated.
                  Inr (if associated then ''Enabled'' else ''Not enabled''))))))"

definition get_vm_insights_status :: "world \<Rightarrow> json \<Rightarrow> string \<Rightarrow> string \<Rightarrow> string" where
  "get_vm_insights_status w resource_id token vm_type =
     (case insights_status_try w resource_id token vm_type of
        Inl e \<Rightarrow> ''Unknown''
      | Inr s \<Rightarrow> s)"

record machine =
  machine_name :: json
  machine_type :: string
  power_state :: string
  monitored :: bool
  insights_status :: string

text \<open>
  \<^verbatim>\<open>vm_metrics\<close>: the two counters and the dict of resource groups, kept as the list of
  its entries in insertion order; a group's value is its \<^verbatim>\<open>'machines'\<close> list.
\<close>

record vm_metrics =
  total_machines :: nat
  total_monitored :: nat
  resource_groups :: "(string \<times> machine list) list"

text \<open>\<^verbatim>\<open>groups[rg]['machines'].append(m)\<close>, for a key that is present.\<close>

fun append_machine :: "string \<Rightarrow> machine \<Rightarrow> (string \<times> machine list) list \<Rightarrow> (string \<times> machine list) list" where
  "append_machine rg m [] = []"
| "append_machine rg m ((k, ms) # groups) =
     (if k = rg then (k, ms @ [m]) # groups else (k, ms) # append_machine rg m groups)"

text \<open>\<^verbatim>\<open>rg_name = resource_id.split('/')[4].lower() if resource_id else "unknown"\<close>.\<close>

definition vm_rg_name :: "json \<Rightarrow> py_error + string" where
  "vm_rg_name resource_id =
     (if py_truthy resource_id
      then ebind (segment4 resource_id) (\<lambda>seg. Inr (lower seg))
      else Inr ''unknown'')"

definition process_vm :: "world \<Rightarrow> json \<Rightarrow> string \<Rightarrow> string \<Rightarrow> vm_metrics \<Rightarrow> py_error + vm_metrics" where
  "process_vm w vm vm_type token vm_metrics =
     ebind (py_get vm ''name'' (JStr ''Unnamed'')) (\<lambda>vm_name.
     ebind (py_get vm ''id'' (JStr [])) (\<lambda>resource_id.
     ebind (vm_rg_name resource_id) (\<lambda>rg_name.
       let groups = (if map_of (resource_groups vm_metrics) rg_name = None
                     then resource_groups vm_metrics @ [(rg_name, [])]
                     else resource_groups vm_metrics);
           pstate = get_vm_power_state w resource_id token vm_type;
           istatus = get_vm_insights_status w resource_id token vm_type;
           m = \<lparr>machine_name = vm_name, machine_type = vm_type, power_state = pstate,
                monitored = (istatus = ''Enabled''), insights_status = istatus\<rparr>
       in Inr (vm_metrics
            \<lparr>resource_groups := append_machine rg_name m groups,
             total_machines := total_machines vm_metrics + 1,
             total_monitored := (if istatus = ''Enabled'' then total_monitored vm_metrics + 1
                                 else total_monitored vm_metrics)\<rparr>))))"

definition get_vm_metrics :: "world \<Rightarrow> string \<Rightarrow> py_error + vm_metrics" where
  "get_vm_metrics w token =
     (let vm_metrics0 = \<lparr>total_machines = 0, total_monitored = 0, resource_groups = []\<rparr>
      in ebind (get_vms w subscription_id token) (\<lambda>compute_vms.
         ebind (py_iter compute_vms) (\<lambda>vms.
         ebind (efold (\<lambda>vm. process_vm w vm ''Compute'' token) vms vm_metrics0) (\<lambda>vm_metrics1.
         ebind (get_arc_machines w subscription_id token) (\<lambda>arc_machines.
         ebind (py_iter arc_machines) (\<lambda>machines.
         efold (\<lambda>machine. process_vm w machine ''Arc'' token) machines vm_metrics1))))))"

section \<open>Network resources\<close>

definition health_url :: "world \<Rightarrow> json \<Rightarrow> string" where
  "health_url w resource_id =
     resource_url @ fstr w resource_id
     @ ''/providers/Microsoft.ResourceHealth/availabilityStatuses/current?api-version=2022-10-01''"

definition get_resource_health :: "world \<Rightarrow> json \<Rightarrow> string \<Rightarrow> json" where
  "get_resource_health w resource_id token =
     (if \<not> py_truthy resource_id then JStr ''Unknown''
      else
        let headers = bearer token;
            url = health_url w resource_id
        in (case ebind (requests_get w url headers) (\<lambda>response.
                    if response_ok response
                    then ebind (response_json response) (\<lambda>data.
                         ebind (py_get data ''properties'' (JObj [])) (\<lambda>props.
                         py_get props ''availabilityState'' (JStr ''Unknown'')))
                    else Inr (JStr ''Unknown''))
            of Inl e \<Rightarrow> JStr ''Unknown''
             | Inr state \<Rightarrow> state))"

record resource_info =
  info_name :: json
  resource_group :: string
  provisioning_state :: json
  health_state :: json

record net_entry =
  count :: nat
  items :: "resource_info list"

text \<open>The dict literal \<^verbatim>\<open>resource_info = {...}\<close> built for one item, field by field.\<close>

definition resource_info_of :: "world \<Rightarrow> string \<Rightarrow> json \<Rightarrow> py_error + resource_info" where
  "resource_info_of w token item =
     ebind (py_get item ''name'' JNull) (\<lambda>n.
     ebind (py_get item ''id'' (JStr [])) (\<lambda>i.
     ebind (segment4 i) (\<lambda>rg.
     ebind (py_get item ''properties'' (JObj [])) (\<lambda>props.
     ebind (py_get props ''provisioningState'' (JStr ''Unknown'')) (\<lambda>prov.
     ebind (py_get item ''id'' JNull) (\<lambda>resource_id.
       Inr \<lparr>info_name = n, resource_group = rg, provisioning_state = prov,
            health_state = get_resource_health w resource_id token\<rparr>))))))"

text \<open>
  The \<^verbatim>\<open>for item in items\<close> loop inside the \<^verbatim>\<open>try\<close>: an exception ends the loop and is
  swallowed by the \<^verbatim>\<open>except\<close>; what was appended before stays.
\<close>

fun append_items :: "world \<Rightarrow> string \<Rightarrow> json list \<Rightarrow> resource_info list \<Rightarrow> resource_info list" where
  "append_items w token [] acc = acc"
| "append_items w token (item # rest) acc =
     (case resource_info_of w token item of
        Inl e \<Rightarrow> acc
      | Inr info \<Rightarrow> append_items w token rest (acc @ [info]))"

text \<open>One round of the loop over \<^verbatim>\<open>resources.items()\<close>, on the entry of that resource type.\<close>

definition network_url :: "string \<Rightarrow> string \<Rightarrow> string" where
  "network_url subscription resource_path =
     resource_url @ ''subscriptions/'' @ subscription @ resource_path
     @ ''?api-version='' @ api_version_network"

definition collect_kind :: "world \<Rightarrow> string \<Rightarrow> string \<Rightarrow> string \<Rightarrow> net_entry \<Rightarrow> net_entry" where
  "collect_kind w subscription token resource_path entry =
     (let url = network_url subscription resource_path
      in case requests_get w url (bearer token) of
           Inl e \<Rightarrow> entry
         | Inr response \<Rightarrow>
             if response_ok response
             then (case response_json response of
                     Inl e \<Rightarrow> entry
                   | Inr data \<Rightarrow>
                       (case py_get data ''value'' (JArr []) of
                          Inl e \<Rightarrow> entry
                        | Inr v \<Rightarrow>
                            (case py_len v of
                               Inl e \<Rightarrow> entry
                             | Inr n \<Rightarrow>
                                 (case py_iter v of
                                    Inl e \<Rightarrow> entry\<lparr>count := n\<rparr>
                                  | Inr its \<Rightarrow>
                                      entry\<lparr>count := n,
                                            items := append_items w token its (items entry)\<rparr>))))
             else entry)"

definition initial_network_metrics :: "(string \<times> net_entry) list" where
  "initial_network_metrics =
     map (\<lambda>k. (k, \<lparr>count = 0, items = []\<rparr>))
       [''er_vpn_connections'', ''expressroute_circuits'', ''express_route_gateways'',
        ''network_interfaces'', ''network_security_groups'', ''network_virtual_appliances'',
        ''private_endpoints'', ''public_ips'', ''route_tables'', ''virtual_network_gateways'',
        ''virtual_networks'']"

definition resources :: "(string \<times> string) list" where
  "resources =
     [(''virtual_networks'', ''/providers/Microsoft.Network/virtualNetworks''),
      (''network_interfaces'', ''/providers/Microsoft.Network/networkInterfaces''),
      (''network_security_groups'', ''/providers/Microsoft.Network/networkSecurityGroups''),
      (''public_ips'', ''/providers/Microsoft.Network/publicIPAddresses''),
      (''route_tables'', ''/providers/Microsoft.Network/routeTables''),
      (''private_endpoints'', ''/providers/Microsoft.Network/privateEndpoints''),
      (''expressroute_circuits'', ''/providers/Microsoft.Network/expressRouteCircuits''),
      (''virtual_network_gateways'', ''/providers/Microsoft.Network/virtualNetworkGateways''),
      (''er_vpn_connections'', ''/providers/Microsoft.Network/connections''),
      (''express_route_gateways'', ''/providers/Microsoft.Network/expressRouteGateways''),
      (''network_virtual_appliances'', ''/providers/Microsoft.Network/networkVirtualAppliances'')]"

definition update_entry ::
  "string \<Rightarrow> (net_entry \<Rightarrow> net_entry) \<Rightarrow> (string \<times> net_entry) list \<Rightarrow> (string \<times> net_entry) list" where
  "update_entry k f network_metrics =
     map (\<lambda>(k', e). if k' = k then (k', f e) else (k', e)) network_metrics"

definition get_network_resources :: "world \<Rightarrow> string \<Rightarrow> string \<Rightarrow> (string \<times> net_entry) list" where
  "get_network_resources w subscription token =
     fold (\<lambda>(resource_type, resource_path).
             update_entry resource_type (collect_kind w subscription token resource_path))
          resources initial_network_metrics"

section \<open>The run\<close>

record storage_result =
  storage_account :: json
  result_resource_group :: string
  result_metrics :: "metrics option"

record run_summary =
  metrics_results :: "storage_result list"
  vm_summary :: vm_metrics
  network_summary :: "(string \<times> net_entry) list"

text \<open>One round of the loop over the storage accounts in \<^verbatim>\<open>main\<close>.\<close>

definition storage_result_of :: "world \<Rightarrow> string \<Rightarrow> json \<Rightarrow> py_error + storage_result" where
  "storage_result_of w token sa =
     ebind (py_get sa ''name'' (JStr ''N/A'')) (\<lambda>sa_name.
     ebind (snd (get_storage_account_metrics w sa token JNull)) (\<lambda>sa_metrics.
     ebind (ebind (py_in ''id'' sa) (\<lambda>has_id.
              if has_id then ebind (py_get sa ''id'' (JStr [])) segment4 else Inr ''N/A'')) (\<lambda>rg.
       Inr \<lparr>storage_account = sa_name, result_resource_group = rg,
            result_metrics = sa_metrics\<rparr>)))"

fun storage_results :: "world \<Rightarrow> string \<Rightarrow> json list \<Rightarrow> py_error + storage_result list" where
  "storage_results w token [] = Inr []"
| "storage_results w token (sa # rest) =
     ebind (storage_result_of w token sa) (\<lambda>r.
     ebind (storage_results w token rest) (\<lambda>rs. Inr (r # rs)))"

text \<open>
  \<^verbatim>\<open>main\<close> up to the point where the three aggregates are handed to
  \<^verbatim>\<open>display_tables\<close> and \<^verbatim>\<open>export_to_csv\<close>. Nothing in \<^verbatim>\<open>main\<close> catches an exception:
  \<open>Inl e\<close> is the run ending with a traceback.
\<close>

definition main :: "world \<Rightarrow> py_error + run_summary" where
  "main w =
     ebind (get_token w) (\<lambda>token.
     ebind (get_storage_accounts w subscription_id) (\<lambda>storage_accounts.
     ebind (py_len storage_accounts) (\<lambda>found.
     ebind (py_iter storage_accounts) (\<lambda>sas.
     ebind (storage_results w token sas) (\<lambda>results.
     ebind (get_vm_metrics w token) (\<lambda>vm_metrics.
       Inr \<lparr>metrics_results = results, vm_summary = vm_metrics,
            network_summary = get_network_resources w subscription_id token\<rparr>))))))"

text \<open>
  The interpreter's exit status when an exception leaves \<^verbatim>\<open>main\<close> uncaught; when the
  collection completes, the status is decided by what follows it and is left open here.
\<close>

definition exit_code :: "py_error + run_summary \<Rightarrow> nat option" where
  "exit_code r = (case r of Inl e \<Rightarrow> Some 1 | Inr summary \<Rightarrow> None)"

section \<open>What the reporter reads\<close>

datatype cell = Text string | Number real | Value json

text \<open>The row \<^verbatim>\<open>export_to_csv\<close> writes for one storage result.\<close>

definition metric_cell :: "metrics \<Rightarrow> string \<Rightarrow> cell" where
  "metric_cell m k = (case m k of None \<Rightarrow> Text ''N/A'' | Some v \<Rightarrow> Number v)"

definition storage_row :: "storage_result \<Rightarrow> cell list" where
  "storage_row result =
     (let m = (case result_metrics result of None \<Rightarrow> Map.empty | Some d \<Rightarrow> d)
      in [Value (storage_account result), Text (result_resource_group result),
          metric_cell m ''Transactions'', metric_cell m ''Ingress'', metric_cell m ''Egress'',
          metric_cell m ''UsedCapacity'', metric_cell m ''SuccessE2ELatency'',
          metric_cell m ''SuccessServerLatency'', metric_cell m ''Availability''])"

text \<open>
  The three numbers \<^verbatim>\<open>display_tables\<close> prints under the VM table: total, monitored and
  not monitored.
\<close>

definition vm_totals :: "vm_metrics \<Rightarrow> int \<times> int \<times> int" where
  "vm_totals vm =
     (int (total_machines vm), int (total_monitored vm),
      int (total_machines vm) - int (total_monitored vm))"

section \<open>Notions used to state the properties\<close>

text \<open>
  What the properties speak of, said over the decoded data: the statuses of an instance
  view and whether one carries a power-state code.
\<close>

definition has_powerstate_code :: "json \<Rightarrow> bool" where
  "has_powerstate_code status =
     (case ebind (py_get status ''code'' (JStr [])) py_lower of
        Inr code \<Rightarrow> py_in_str ''powerstate'' code
      | Inl e \<Rightarrow> False)"

definition status_list :: "json \<Rightarrow> json list" where
  "status_list data =
     (case ebind (py_get data ''statuses'' (JArr [])) py_iter of
        Inr statuses \<Rightarrow> statuses
      | Inl e \<Rightarrow> [])"

text \<open>
  A data point of a series is an object whose field \<open>f\<close> is absent, null or a number;
  \<open>non_null_values\<close> are the numbers among them, in order, \<open>all_null\<close> says there is
  none, and \<open>mean\<close> is the arithmetic mean, 0 for no value at all.
\<close>

definition data_point :: "string \<Rightarrow> json \<Rightarrow> bool" where
  "data_point f p =
     (case py_get p f JNull of Inr JNull \<Rightarrow> True | Inr (JNum r) \<Rightarrow> True | _ \<Rightarrow> False)"

definition non_null_values :: "string \<Rightarrow> json list \<Rightarrow> real list" where
  "non_null_values f points =
     concat (map (\<lambda>p. case py_get p f JNull of Inr (JNum r) \<Rightarrow> [r] | _ \<Rightarrow> []) points)"

definition all_null :: "string \<Rightarrow> json list \<Rightarrow> bool" where
  "all_null f points = list_all (\<lambda>p. py_get p f JNull = Inr JNull) points"

definition mean :: "real list \<Rightarrow> real" where
  "mean vs = (if vs = [] then 0 else sum_list vs / real (length vs))"

text \<open>The average-reduced metrics: lower-cased name and the key the sample is stored under.\<close>

definition average_catalog :: "(string \<times> string) list" where
  "average_catalog =
     [(''usedcapacity'', ''UsedCapacity''), (''successe2elatency'', ''SuccessE2ELatency''),
      (''successserverlatency'', ''SuccessServerLatency''), (''availability'', ''Availability'')]"

text \<open>The keys the second metrics call can store.\<close>

definition other_keys :: "string set" where
  "other_keys = {''Transactions'', ''Ingress'', ''Egress'', ''SuccessE2ELatency'',
                 ''SuccessServerLatency'', ''Availability''}"

text \<open>
  The records of a VM aggregate, all groups together and one group alone, and the record
  \<^verbatim>\<open>process_vm\<close> appends for a descriptor.
\<close>

definition all_machines :: "vm_metrics \<Rightarrow> machine list" where
  "all_machines vm = concat (map snd (resource_groups vm))"

definition group_machines :: "vm_metrics \<Rightarrow> string \<Rightarrow> machine list" where
  "group_machines vm rg = (case map_of (resource_groups vm) rg of None \<Rightarrow> [] | Some ms \<Rightarrow> ms)"

definition new_machine :: "world \<Rightarrow> json \<Rightarrow> json \<Rightarrow> string \<Rightarrow> string \<Rightarrow> machine" where
  "new_machine w vm_name resource_id vm_type token =
     \<lparr>machine_name = vm_name, machine_type = vm_type,
      power_state = get_vm_power_state w resource_id token vm_type,
      monitored = (get_vm_insights_status w resource_id token vm_type = ''Enabled''),
      insights_status = get_vm_insights_status w resource_id token vm_type\<rparr>"

text \<open>
  A detail lookup has failed when the request raised or was answered with a status the
  function does not accept: anything but 200 for the instance view, an error status
  (\<^verbatim>\<open>not response.ok\<close>) for the resource health. The monitored and not-monitored counts
  of a list of records are taken from the records' \<open>monitored\<close> flag.
\<close>

definition lookup_failed :: "py_error + response \<Rightarrow> bool" where
  "lookup_failed r = (case r of Inl e \<Rightarrow> True | Inr resp \<Rightarrow> status_code resp \<noteq> 200)"

definition health_lookup_failed :: "py_error + response \<Rightarrow> bool" where
  "health_lookup_failed r = (case r of Inl e \<Rightarrow> True | Inr resp \<Rightarrow> \<not> response_ok resp)"

definition monitored_count :: "machine list \<Rightarrow> nat" where
  "monitored_count ms = length (filter monitored ms)"

definition not_monitored_count :: "machine list \<Rightarrow> nat" where
  "not_monitored_count ms = length (filter (\<lambda>m. \<not> monitored m) ms)"

definition counters_agree :: "vm_metrics \<Rightarrow> bool" where
  "counters_agree vm =
     (total_machines vm = length (all_machines vm)
      \<and> total_monitored vm = monitored_count (all_machines vm))"

text \<open>The entry every network resource type starts with.\<close>

definition empty_entry :: net_entry where
  "empty_entry = \<lparr>count = 0, items = []\<rparr>"

section \<open>Example environments\<close>

text \<open>An environment whose transport answers every request the same way.\<close>

definition constant_world :: "py_error + response \<Rightarrow> world" where
  "constant_world r =
     \<lparr>token_provider = Inr ''token'', requests_get = (\<lambda>url headers. r), py_repr = (\<lambda>j. ''?'')\<rparr>"

text \<open>A series of four hourly points, one of them null and one without values.\<close>

definition example_points :: "json list" where
  "example_points =
     [JObj [(''total'', JNum 3), (''average'', JNum 1)],
      JObj [(''total'', JNull), (''average'', JNull)],
      JObj [(''total'', JNum (9 / 2)), (''average'', JNum 4)],
      JObj [(''timeStamp'', JStr ''2024-01-01T00:00:00Z'')]]"

definition example_metric :: "string \<Rightarrow> json list \<Rightarrow> json" where
  "example_metric v points =
     JObj [(''name'', JObj [(''value'', JStr v)]),
           (''timeseries'', JArr [JObj [(''data'', JArr points)]])]"

text \<open>
  A storage account, and two environments for it: in the first the UsedCapacity request
  raises, in the second it is answered with status 500; the other request is answered
  with one Transactions series.
\<close>

definition capacity_down_world :: world where
  "capacity_down_world =
     \<lparr>token_provider = Inr ''token'',
      requests_get = (\<lambda>url headers.
        if py_in_str ''metricnames=UsedCapacity'' url then Inl ConnectionError
        else Inr \<lparr>status_code = 200,
                  body = Some (JObj [(''value'',
                    JArr [example_metric ''Transactions'' example_points])])\<rparr>),
      py_repr = (\<lambda>j. ''?'')\<rparr>"

definition capacity_failed_world :: world where
  "capacity_failed_world =
     \<lparr>token_provider = Inr ''token'',
      requests_get = (\<lambda>url headers.
        if py_in_str ''metricnames=UsedCapacity'' url
        then Inr \<lparr>status_code = 500, body = None\<rparr>
        else Inr \<lparr>status_code = 200,
                  body = Some (JObj [(''value'',
                    JArr [example_metric ''Transactions'' example_points])])\<rparr>),
      py_repr = (\<lambda>j. ''?'')\<rparr>"

definition example_account :: json where
  "example_account =
     JObj [(''name'', JStr ''acct1''),
           (''id'', JStr ''/subscriptions/s/resourceGroups/rg-a/providers/Microsoft.Storage/storageAccounts/acct1'')]"

text \<open>
  An environment in which every request raises, a VM whose identifier has no
  resource-group segment, and a virtual network under two spellings of its group.
\<close>

definition down_world :: world where
  "down_world = constant_world (Inl ConnectionError)"

definition vm_without_group :: json where
  "vm_without_group = JObj [(''name'', JStr ''vm1''), (''id'', JStr ''/subscriptions/s'')]"


definition vnet_lower :: json where
  "vnet_lower =
     JObj [(''name'', JStr ''vnet1''),
           (''id'', JStr ''/subscriptions/s/resourceGroups/rg-a/providers/Microsoft.Network/virtualNetworks/vnet1'')]"

text \<open>
  A native VM, and an environment that answers every request with status 200 and a
  listing of that one VM.
\<close>

definition example_vm :: json where
  "example_vm =
     JObj [(''name'', JStr ''vm1''),
           (''id'', JStr ''/subscriptions/s/resourceGroups/RG-A/providers/Microsoft.Compute/virtualMachines/vm1'')]"

definition listing_world :: world where
  "listing_world =
     constant_world (Inr \<lparr>status_code = 200, body = Some (JObj [(''value'', JArr [example_vm])])\<rparr>)"

text \<open>
  An environment that answers every request with status 500, and one in which only the
  listing of virtual networks is answered so.
\<close>

definition error_world :: world where
  "error_world = constant_world (Inr \<lparr>status_code = 500, body = None\<rparr>)"

definition vnet_down_world :: world where
  "vnet_down_world =
     \<lparr>token_provider = Inr ''token'',
      requests_get = (\<lambda>url headers.
        if py_in_str ''virtualNetworks?'' url
        then Inr \<lparr>status_code = 500, body = None\<rparr>
        else Inr \<lparr>status_code = 200, body = Some (JObj [(''value'', JArr [vnet_lower])])\<rparr>),
      py_repr = (\<lambda>j. ''?'')\<rparr>"

text \<open>
  An environment that answers every request with status 201 and a reported availability
  state, and one in which only the listing of public IP addresses is answered, with the
  one virtual network as its item, while every other request raises.
\<close>

definition created_world :: world where
  "created_world =
     constant_world (Inr \<lparr>status_code = 201,
       body = Some (JObj [(''properties'',
         JObj [(''availabilityState'', JStr ''Available'')])])\<rparr>)"

definition detail_down_world :: world where
  "detail_down_world =
     \<lparr>token_provider = Inr ''token'',
      requests_get = (\<lambda>url headers.
        if py_in_str ''publicIPAddresses?'' url
        then Inr \<lparr>status_code = 200, body = Some (JObj [(''value'', JArr [vnet_lower])])\<rparr>
        else Inl ConnectionError),
      py_repr = (\<lambda>j. ''?'')\<rparr>"

section \<open>Properties\<close>

lemma ebind_Inl [simp]: "ebind (Inl e) f = Inl e"
  by (simp add: ebind_def)

lemma ebind_Inr [simp]: "ebind (Inr x) f = f x"
  by (simp add: ebind_def)

subsection \<open>Power state of a native VM\<close>

lemma scan_statuses_no_powerstate:
  "\<forall>s \<in> set statuses. \<not> has_powerstate_code s \<Longrightarrow>
   scan_statuses statuses = Inr None \<or> (\<exists>e. scan_statuses statuses = Inl e)"
proof (induction statuses)
  case Nil
  then show ?case by simp
next
  case (Cons s rest)
  then show ?case
    by (auto simp: has_powerstate_code_def ebind_def split: sum.splits)
qed

text \<open>
  C10. A native (Compute) VM whose instance view is answered with status 200 and whose
  status list holds no code containing "powerstate" gets the power state "unknown",
  not "stopped".
\<close>

theorem power_state_unknown_without_powerstate_code:
  assumes "requests_get w (instance_view_url w resource_id ''Compute'') (bearer token) = Inr response"
    and "status_code response = 200"
    and "body response = Some data"
    and "\<forall>s \<in> set (status_list data). \<not> has_powerstate_code s"
  shows "get_vm_power_state w resource_id token ''Compute'' = ''unknown''"
proof (cases "ebind (py_get data ''statuses'' (JArr [])) py_iter")
  case (Inl e)
  with assms(1-3) show ?thesis
    by (simp add: get_vm_power_state_def power_state_try_def response_json_def ebind_def
        split: sum.splits)
next
  case (Inr statuses)
  with assms(4) have "\<forall>s \<in> set statuses. \<not> has_powerstate_code s"
    by (simp add: status_list_def)
  then have "scan_statuses statuses = Inr None \<or> (\<exists>e. scan_statuses statuses = Inl e)"
    by (rule scan_statuses_no_powerstate)
  with Inr assms(1-3) show ?thesis
    by (auto simp: get_vm_power_state_def power_state_try_def response_json_def ebind_def
        split: sum.splits)
qed

theorem power_state_unknown_without_powerstate_code_witness:
  "get_vm_power_state
     (constant_world (Inr \<lparr>status_code = 200,
        body = Some (JObj [(''statuses'',
          JArr [JObj [(''code'', JStr ''ProvisioningState/succeeded'')]])])\<rparr>))
     (JStr ''/subscriptions/s/resourceGroups/rg/providers/Microsoft.Compute/virtualMachines/vm1'')
     ''token'' ''Compute'' = ''unknown''"
  by (rule power_state_unknown_without_powerstate_code
      [where response = "\<lparr>status_code = 200,
        body = Some (JObj [(''statuses'',
          JArr [JObj [(''code'', JStr ''ProvisioningState/succeeded'')]])])\<rparr>"
        and data = "JObj [(''statuses'',
          JArr [JObj [(''code'', JStr ''ProvisioningState/succeeded'')]])]"])
     (simp_all add: constant_world_def status_list_def has_powerstate_code_def lower_def
        char_lower_def)

text \<open>For contrast: a reported power state other than running is "stopped".\<close>

lemma power_state_stopped_example:
  "get_vm_power_state
     (constant_world (Inr \<lparr>status_code = 200,
        body = Some (JObj [(''statuses'',
          JArr [JObj [(''code'', JStr ''PowerState/deallocated'')]])])\<rparr>))
     (JStr ''/subscriptions/s/resourceGroups/rg/providers/Microsoft.Compute/virtualMachines/vm1'')
     ''token'' ''Compute'' = ''stopped''"
  by (simp add: get_vm_power_state_def power_state_try_def constant_world_def response_json_def
      lower_def char_lower_def)

subsection \<open>Metric reduction\<close>

lemma data_point_cases:
  assumes "data_point f p"
  obtains "py_get p f JNull = Inr JNull" | r where "py_get p f JNull = Inr (JNum r)"
proof (cases "py_get p f JNull")
  case (Inl e)
  with assms show ?thesis by (simp add: data_point_def)
next
  case (Inr v)
  with assms that show ?thesis by (cases v) (simp_all add: data_point_def)
qed

lemma py_get_default:
  "py_get p f JNull = Inr v \<Longrightarrow> v \<noteq> JNull \<Longrightarrow> py_get p f d = Inr v"
  by (cases p) (auto split: option.splits)

lemma non_null_values_Nil [simp]: "non_null_values f [] = []"
  by (simp add: non_null_values_def)

lemma non_null_values_null:
  "py_get p f JNull = Inr JNull \<Longrightarrow> non_null_values f (p # ps) = non_null_values f ps"
  by (simp add: non_null_values_def)

lemma non_null_values_num:
  "py_get p f JNull = Inr (JNum r) \<Longrightarrow> non_null_values f (p # ps) = r # non_null_values f ps"
  by (simp add: non_null_values_def)

lemma all_null_values: "all_null f points \<Longrightarrow> non_null_values f points = []"
  by (induction points) (simp_all add: all_null_def non_null_values_null)

lemma sum_points_data:
  "\<forall>p \<in> set points. data_point f p \<Longrightarrow>
   sum_points f acc points = Inr (acc + sum_list (non_null_values f points))"
proof (induction points arbitrary: acc)
  case Nil
  then show ?case by simp
next
  case (Cons p points)
  from Cons.prems have p: "data_point f p" and rest: "\<forall>q \<in> set points. data_point f q"
    by simp_all
  from p show ?case
  proof (cases rule: data_point_cases)
    case 1
    then show ?thesis
      using Cons.IH [OF rest, of acc] by (simp add: non_null_values_null)
  next
    case (2 r)
    then have "py_get p f (JNum 0) = Inr (JNum r)"
      by (rule py_get_default) simp
    with 2 show ?thesis
      using Cons.IH [OF rest, of "acc + r"] by (simp add: non_null_values_num)
  qed
qed

lemma point_values_data:
  "\<forall>p \<in> set points. data_point f p \<Longrightarrow>
   point_values f points = Inr (map JNum (non_null_values f points))"
proof (induction points)
  case Nil
  then show ?case by simp
next
  case (Cons p points)
  from Cons.prems have p: "data_point f p" and rest: "\<forall>q \<in> set points. data_point f q"
    by simp_all
  from p show ?case
  proof (cases rule: data_point_cases)
    case 1
    then show ?thesis
      using Cons.IH [OF rest] by (simp add: non_null_values_null)
  next
    case (2 r)
    then have "py_get p f (JNum 0) = Inr (JNum r)"
      by (rule py_get_default) simp
    with 2 show ?thesis
      using Cons.IH [OF rest] by (simp add: non_null_values_num)
  qed
qed

lemma py_sum_numbers: "py_sum acc (map JNum rs) = Inr (acc + sum_list rs)"
  by (induction rs arbitrary: acc) (simp_all add: add.assoc)

lemma mean_or_zero_numbers: "mean_or_zero (map JNum rs) = Inr (mean rs)"
  by (simp add: mean_or_zero_def py_sum_numbers mean_def)

lemma py_item_in: "py_item ts0 k = Inr v \<Longrightarrow> py_in k ts0 = Inr True"
  by (cases ts0) (auto split: option.splits)

lemma metric_series_entry:
  assumes "py_get metric ''name'' (JObj []) = Inr n"
    and "py_get n ''value'' (JStr []) = Inr (JStr v)"
    and "py_get metric ''timeseries'' (JArr []) = Inr (JArr (ts0 # series))"
    and "py_item ts0 ''data'' = Inr datapoints"
  shows "metric_series metric = Inr (lower v, Some datapoints)"
  using assms by (simp add: metric_series_def py_item_in)

lemma total_of_data:
  "\<forall>p \<in> set points. data_point ''total'' p \<Longrightarrow>
   total_of (JArr points) = Inr (sum_list (non_null_values ''total'' points))"
  by (simp add: total_of_def sum_points_data)

lemma average_of_data:
  "\<forall>p \<in> set points. data_point ''average'' p \<Longrightarrow>
   average_of (JArr points) = Inr (mean (non_null_values ''average'' points))"
  by (simp add: average_of_def point_values_data mean_or_zero_numbers)

lemma example_values:
  "non_null_values ''total'' example_points = [3, 9 / 2]"
  "non_null_values ''average'' example_points = [1, 4]"
  by (simp_all add: non_null_values_def example_points_def)

text \<open>
  C4. For a sum-reduced metric (Transactions, Ingress, Egress) of the second response,
  the sample stored under the metric's name is the sum of the non-null \<open>total\<close> values
  of the series' data points, and 0 when every point is null.
\<close>

theorem sum_reduced_sample:
  assumes "py_get metric ''name'' (JObj []) = Inr n"
    and "py_get n ''value'' (JStr []) = Inr (JStr v)"
    and "lower v \<in> {''transactions'', ''ingress'', ''egress''}"
    and "py_get metric ''timeseries'' (JArr []) = Inr (JArr (ts0 # series))"
    and "py_item ts0 ''data'' = Inr (JArr points)"
    and "\<forall>p \<in> set points. data_point ''total'' p"
  shows "others_step metric metrics =
           Inr (metrics(capitalize (lower v) \<mapsto> sum_list (non_null_values ''total'' points)))
         \<and> (all_null ''total'' points \<longrightarrow>
              others_step metric metrics = Inr (metrics(capitalize (lower v) \<mapsto> 0)))"
proof -
  have series: "metric_series metric = Inr (lower v, Some (JArr points))"
    using assms(1,2,4,5) by (rule metric_series_entry)
  have total: "total_of (JArr points) = Inr (sum_list (non_null_values ''total'' points))"
    using assms(6) by (rule total_of_data)
  from assms(3) consider "lower v = ''transactions''" | "lower v = ''ingress''"
    | "lower v = ''egress''"
    by blast
  then have step: "others_step metric metrics =
           Inr (metrics(capitalize (lower v) \<mapsto> sum_list (non_null_values ''total'' points)))"
  proof cases
    case 1
    show ?thesis
      unfolding others_step_def series 1
      by (simp add: total char_upper_def lower_def char_lower_def)
  next
    case 2
    show ?thesis
      unfolding others_step_def series 2
      by (simp add: total char_upper_def lower_def char_lower_def)
  next
    case 3
    show ?thesis
      unfolding others_step_def series 3
      by (simp add: total char_upper_def lower_def char_lower_def)
  qed
  show ?thesis
  proof (intro conjI impI)
    show "others_step metric metrics =
           Inr (metrics(capitalize (lower v) \<mapsto> sum_list (non_null_values ''total'' points)))"
      by (rule step)
  next
    assume "all_null ''total'' points"
    then have "non_null_values ''total'' points = []"
      by (rule all_null_values)
    with step show "others_step metric metrics = Inr (metrics(capitalize (lower v) \<mapsto> 0))"
      by simp
  qed
qed

theorem sum_reduced_sample_witness:
  "others_step (example_metric ''Transactions'' example_points) Map.empty =
     Inr [''Transactions'' \<mapsto> 15 / 2]"
proof -
  have "\<forall>p \<in> set example_points. data_point ''total'' p"
    by (simp add: example_points_def data_point_def)
  moreover have "lower ''Transactions'' = ''transactions''"
    by (simp add: lower_def char_lower_def)
  ultimately show ?thesis
    using sum_reduced_sample [of "example_metric ''Transactions'' example_points"
        "JObj [(''value'', JStr ''Transactions'')]" "''Transactions''"
        "JObj [(''data'', JArr example_points)]" "[]" example_points Map.empty]
    by (simp add: example_metric_def example_values char_upper_def lower_def char_lower_def)
qed

text \<open>
  C5. For an average-reduced metric (UsedCapacity in the first response; SuccessE2ELatency,
  SuccessServerLatency and Availability in the second), the sample stored is the
  arithmetic mean of the non-null \<open>average\<close> values of the data points, and 0 when
  there is no such value.
\<close>

theorem average_reduced_sample:
  assumes "py_get metric ''name'' (JObj []) = Inr n"
    and "py_get n ''value'' (JStr []) = Inr (JStr v)"
    and "map_of average_catalog (lower v) = Some key"
    and "py_get metric ''timeseries'' (JArr []) = Inr (JArr (ts0 # series))"
    and "py_item ts0 ''data'' = Inr (JArr points)"
    and "\<forall>p \<in> set points. data_point ''average'' p"
  shows "(if lower v = ''usedcapacity'' then capacity_step metric metrics
          else others_step metric metrics) =
           Inr (metrics(key \<mapsto> mean (non_null_values ''average'' points)))
         \<and> (all_null ''average'' points \<longrightarrow>
              (if lower v = ''usedcapacity'' then capacity_step metric metrics
               else others_step metric metrics) = Inr (metrics(key \<mapsto> 0)))"
proof -
  have series: "metric_series metric = Inr (lower v, Some (JArr points))"
    using assms(1,2,4,5) by (rule metric_series_entry)
  have avg: "average_of (JArr points) = Inr (mean (non_null_values ''average'' points))"
    using assms(6) by (rule average_of_data)
  from assms(3) consider
      "lower v = ''usedcapacity''" "key = ''UsedCapacity''"
    | "lower v = ''successe2elatency''" "key = ''SuccessE2ELatency''"
    | "lower v = ''successserverlatency''" "key = ''SuccessServerLatency''"
    | "lower v = ''availability''" "key = ''Availability''"
    by (auto simp: average_catalog_def split: if_splits)
  then have step: "(if lower v = ''usedcapacity'' then capacity_step metric metrics
          else others_step metric metrics) =
           Inr (metrics(key \<mapsto> mean (non_null_values ''average'' points)))"
  proof cases
    case 1
    show ?thesis
      unfolding capacity_step_def series 1 by (simp add: avg)
  next
    case 2
    show ?thesis
      unfolding others_step_def series 2 by (simp add: avg)
  next
    case 3
    show ?thesis
      unfolding others_step_def series 3 by (simp add: avg)
  next
    case 4
    show ?thesis
      unfolding others_step_def series 4 by (simp add: avg)
  qed
  show ?thesis
  proof (intro conjI impI)
    show "(if lower v = ''usedcapacity'' then capacity_step metric metrics
          else others_step metric metrics) =
           Inr (metrics(key \<mapsto> mean (non_null_values ''average'' points)))"
      by (rule step)
  next
    assume "all_null ''average'' points"
    then have "non_null_values ''average'' points = []"
      by (rule all_null_values)
    with step show "(if lower v = ''usedcapacity'' then capacity_step metric metrics
               else others_step metric metrics) = Inr (metrics(key \<mapsto> 0))"
      by (simp add: mean_def)
  qed
qed

theorem average_reduced_sample_witness:
  "others_step (example_metric ''Availability'' example_points) Map.empty =
     Inr [''Availability'' \<mapsto> 5 / 2]"
proof -
  have "\<forall>p \<in> set example_points. data_point ''average'' p"
    by (simp add: example_points_def data_point_def)
  moreover have "lower ''Availability'' = ''availability''"
    by (simp add: lower_def char_lower_def)
  ultimately show ?thesis
    using average_reduced_sample [of "example_metric ''Availability'' example_points"
        "JObj [(''value'', JStr ''Availability'')]" "''Availability''" "''Availability''"
        "JObj [(''data'', JArr example_points)]" "[]" example_points Map.empty]
    by (simp add: example_metric_def example_values average_catalog_def mean_def)
qed

subsection \<open>The two metric calls\<close>

lemma others_step_add:
  "others_step metric (m ++ d) = map_sum id (\<lambda>d'. m ++ d') (others_step metric d)"
  by (auto simp: others_step_def ebind_def split: sum.splits option.splits)

lemma capacity_step_add:
  "capacity_step metric (m ++ d) = map_sum id (\<lambda>d'. m ++ d') (capacity_step metric d)"
  by (auto simp: capacity_step_def ebind_def split: sum.splits option.splits)

lemma efold_add:
  assumes "\<And>x d. step x (m ++ d) = map_sum id (\<lambda>d'. m ++ d') (step x d)"
  shows "efold step xs (m ++ d) = map_sum id (\<lambda>d'. m ++ d') (efold step xs d)"
proof (induction xs arbitrary: d)
  case Nil
  show ?case by simp
next
  case (Cons x xs)
  show ?case
  proof (cases "step x d")
    case (Inl e)
    then show ?thesis by (simp add: assms)
  next
    case (Inr d')
    then show ?thesis by (simp add: assms Cons.IH)
  qed
qed

lemma collect_response_add:
  assumes "\<And>x d. step x (m ++ d) = map_sum id (\<lambda>d'. m ++ d') (step x d)"
  shows "collect_response step r m = map_sum id (\<lambda>d'. m ++ d') (collect_response step r Map.empty)"
proof -
  have "efold step xs m = map_sum id (\<lambda>d'. m ++ d') (efold step xs Map.empty)" for xs
    using efold_add [of step m xs Map.empty, OF assms] by simp
  then show ?thesis
    by (auto simp: collect_response_def ebind_def split: sum.splits)
qed

lemma collect_response_not_ok: "\<not> response_ok r \<Longrightarrow> collect_response step r m = Inr m"
  by (simp add: collect_response_def)

lemma capacity_step_dom:
  "capacity_step metric m = Inr m' \<Longrightarrow> dom m' \<subseteq> insert ''UsedCapacity'' (dom m)"
  by (auto simp: capacity_step_def ebind_def split: sum.splits option.splits if_splits)

lemma others_step_dom:
  "others_step metric m = Inr m' \<Longrightarrow> dom m' \<subseteq> other_keys \<union> dom m"
  by (auto simp: others_step_def ebind_def other_keys_def char_upper_def lower_def char_lower_def
      split: sum.splits option.splits if_splits)

lemma efold_dom:
  assumes "\<And>x m m'. step x m = Inr m' \<Longrightarrow> dom m' \<subseteq> K \<union> dom m"
  shows "efold step xs m = Inr m' \<Longrightarrow> dom m' \<subseteq> K \<union> dom m"
proof (induction xs arbitrary: m)
  case Nil
  then show ?case by auto
next
  case (Cons x xs)
  then obtain m1 where s: "step x m = Inr m1" and r: "efold step xs m1 = Inr m'"
    by (auto simp: ebind_def split: sum.splits)
  from Cons.IH [OF r] assms [OF s] show ?case by blast
qed

lemma collect_response_dom:
  assumes "\<And>x m m'. step x m = Inr m' \<Longrightarrow> dom m' \<subseteq> K \<union> dom m"
    and "collect_response step r m = Inr m'"
  shows "dom m' \<subseteq> K \<union> dom m"
proof (cases "response_ok r")
  case False
  with assms(2) show ?thesis by (auto simp: collect_response_def)
next
  case True
  with assms(2) obtain xs where "efold step xs m = Inr m'"
    by (auto simp: collect_response_def ebind_def split: sum.splits)
  then show ?thesis
    using efold_dom [of step K xs m m'] assms(1) by blast
qed

lemma example_transactions_step:
  "others_step (example_metric ''Transactions'' example_points) Map.empty =
     Inr [''Transactions'' \<mapsto> 15 / 2]"
  by (simp add: others_step_def metric_series_def example_metric_def total_of_def
      example_points_def lower_def char_lower_def)

lemma example_urls:
  "py_in_str ''metricnames=UsedCapacity''
     (url_capacity w (JStr ''/subscriptions/s/resourceGroups/rg-a/providers/Microsoft.Storage/storageAccounts/acct1''))"
  "\<not> py_in_str ''metricnames=UsedCapacity''
     (url_metrics w (JStr ''/subscriptions/s/resourceGroups/rg-a/providers/Microsoft.Storage/storageAccounts/acct1''))"
  by (simp_all add: url_capacity_def url_metrics_def metrics_url_def resource_url_def
      api_version_metrics_def)

lemma metric_responses_merge:
  assumes "py_get sa ''id'' JNull = Inr resource_id"
    and "py_truthy resource_id"
    and "requests_get w (url_capacity w resource_id) (bearer token) = Inr r1"
    and "requests_get w (url_metrics w resource_id) (bearer token) = Inr r2"
  shows "snd (get_storage_account_metrics w sa token timespan) =
           ebind (collect_response capacity_step r1 Map.empty) (\<lambda>m1.
           ebind (collect_response others_step r2 Map.empty) (\<lambda>m2. Inr (Some (m1 ++ m2))))
         \<and> (\<not> response_ok r1 \<longrightarrow>
              snd (get_storage_account_metrics w sa token timespan) =
                ebind (collect_response others_step r2 Map.empty) (\<lambda>m2. Inr (Some m2)))
         \<and> (\<not> response_ok r2 \<longrightarrow>
              snd (get_storage_account_metrics w sa token timespan) =
                ebind (collect_response capacity_step r1 Map.empty) (\<lambda>m1. Inr (Some m1)))
         \<and> (\<forall>m1. collect_response capacity_step r1 Map.empty = Inr m1 \<longrightarrow>
                dom m1 \<subseteq> {''UsedCapacity''})
         \<and> (\<forall>m2. collect_response others_step r2 Map.empty = Inr m2 \<longrightarrow>
                dom m2 \<subseteq> other_keys)"
proof -
  have add: "collect_response others_step r2 m =
      map_sum id (\<lambda>d'. m ++ d') (collect_response others_step r2 Map.empty)" for m
    by (rule collect_response_add) (rule others_step_add)
  have merge: "snd (get_storage_account_metrics w sa token timespan) =
           ebind (collect_response capacity_step r1 Map.empty) (\<lambda>m1.
           ebind (collect_response others_step r2 Map.empty) (\<lambda>m2. Inr (Some (m1 ++ m2))))"
  proof (cases "collect_response capacity_step r1 Map.empty")
    case (Inl e)
    with assms show ?thesis
      by (simp add: get_storage_account_metrics_def Let_def)
  next
    case (Inr m1)
    show ?thesis
    proof (cases "collect_response others_step r2 Map.empty")
      case (Inl e)
      with Inr assms add [of m1] show ?thesis
        by (simp add: get_storage_account_metrics_def Let_def)
    next
      case inr: (Inr m2)
      with Inr assms add [of m1] show ?thesis
        by (simp add: get_storage_account_metrics_def Let_def)
    qed
  qed
  have d1: "dom m1 \<subseteq> {''UsedCapacity''}"
    if "collect_response capacity_step r1 Map.empty = Inr m1" for m1
    using collect_response_dom [of capacity_step "{''UsedCapacity''}" r1 Map.empty m1] that
      capacity_step_dom by auto
  have d2: "dom m2 \<subseteq> other_keys"
    if "collect_response others_step r2 Map.empty = Inr m2" for m2
    using collect_response_dom [of others_step other_keys r2 Map.empty m2] that
      others_step_dom by auto
  have a: "snd (get_storage_account_metrics w sa token timespan) =
                ebind (collect_response others_step r2 Map.empty) (\<lambda>m2. Inr (Some m2))"
    if "\<not> response_ok r1"
    using merge that by (simp add: collect_response_not_ok)
  have b: "snd (get_storage_account_metrics w sa token timespan) =
                ebind (collect_response capacity_step r1 Map.empty) (\<lambda>m1. Inr (Some m1))"
    if "\<not> response_ok r2"
    using merge that by (simp add: collect_response_not_ok)
  from merge a b d1 d2 show ?thesis by blast
qed

lemma capacity_call_raises:
  assumes "py_get sa ''id'' JNull = Inr resource_id"
    and "py_truthy resource_id"
    and "requests_get w (url_capacity w resource_id) (bearer token) = Inl e"
  shows "get_storage_account_metrics w sa token timespan =
           ([url_capacity w resource_id], Inl e)"
  using assms by (simp add: get_storage_account_metrics_def Let_def)

lemma metrics_call_raises:
  assumes "py_get sa ''id'' JNull = Inr resource_id"
    and "py_truthy resource_id"
    and "requests_get w (url_capacity w resource_id) (bearer token) = Inr r1"
    and "collect_response capacity_step r1 Map.empty = Inr m1"
    and "requests_get w (url_metrics w resource_id) (bearer token) = Inl e"
  shows "get_storage_account_metrics w sa token timespan =
           ([url_capacity w resource_id, url_metrics w resource_id], Inl e)"
  using assms by (simp add: get_storage_account_metrics_def Let_def)

text \<open>
  C8, as amended. For an account with an identifier: when both metric requests are
  answered, the result is the samples of the UsedCapacity response merged with the samples
  of the other response, each computed on its own; a response with a non-success status
  contributes no samples and the other response's samples are still returned; the first
  response can only store UsedCapacity and the second only the six other names. When the
  first request raises, or the second request raises after the first response has been
  read, the exception leaves \<^verbatim>\<open>get_storage_account_metrics\<close> and no samples are returned.
\<close>

theorem metric_calls_merge:
  assumes "py_get sa ''id'' JNull = Inr resource_id"
    and "py_truthy resource_id"
  shows "(requests_get w (url_capacity w resource_id) (bearer token) = Inr r1
            \<and> requests_get w (url_metrics w resource_id) (bearer token) = Inr r2
          \<longrightarrow> snd (get_storage_account_metrics w sa token timespan) =
                ebind (collect_response capacity_step r1 Map.empty) (\<lambda>m1.
                ebind (collect_response others_step r2 Map.empty) (\<lambda>m2. Inr (Some (m1 ++ m2))))
              \<and> (\<not> response_ok r1 \<longrightarrow>
                   snd (get_storage_account_metrics w sa token timespan) =
                     ebind (collect_response others_step r2 Map.empty) (\<lambda>m2. Inr (Some m2)))
              \<and> (\<not> response_ok r2 \<longrightarrow>
                   snd (get_storage_account_metrics w sa token timespan) =
                     ebind (collect_response capacity_step r1 Map.empty) (\<lambda>m1. Inr (Some m1)))
              \<and> (\<forall>m1. collect_response capacity_step r1 Map.empty = Inr m1 \<longrightarrow>
                     dom m1 \<subseteq> {''UsedCapacity''})
              \<and> (\<forall>m2. collect_response others_step r2 Map.empty = Inr m2 \<longrightarrow>
                     dom m2 \<subseteq> other_keys))
         \<and> (requests_get w (url_capacity w resource_id) (bearer token) = Inl e
          \<longrightarrow> get_storage_account_metrics w sa token timespan =
                ([url_capacity w resource_id], Inl e))
         \<and> (requests_get w (url_capacity w resource_id) (bearer token) = Inr r1
            \<and> collect_response capacity_step r1 Map.empty = Inr m
            \<and> requests_get w (url_metrics w resource_id) (bearer token) = Inl e
          \<longrightarrow> get_storage_account_metrics w sa token timespan =
                ([url_capacity w resource_id, url_metrics w resource_id], Inl e))"
proof (intro conjI impI)
  assume a: "requests_get w (url_capacity w resource_id) (bearer token) = Inr r1
            \<and> requests_get w (url_metrics w resource_id) (bearer token) = Inr r2"
  then have c: "requests_get w (url_capacity w resource_id) (bearer token) = Inr r1"
    and d: "requests_get w (url_metrics w resource_id) (bearer token) = Inr r2"
    by simp_all
  note merged = metric_responses_merge [OF assms c d, of timespan]
  from merged show "snd (get_storage_account_metrics w sa token timespan) =
                ebind (collect_response capacity_step r1 Map.empty) (\<lambda>m1.
                ebind (collect_response others_step r2 Map.empty) (\<lambda>m2. Inr (Some (m1 ++ m2))))"
    by (elim conjE)
  from merged show "\<forall>m1. collect_response capacity_step r1 Map.empty = Inr m1 \<longrightarrow>
                     dom m1 \<subseteq> {''UsedCapacity''}"
    by (elim conjE)
  from merged show "\<forall>m2. collect_response others_step r2 Map.empty = Inr m2 \<longrightarrow>
                     dom m2 \<subseteq> other_keys"
    by (elim conjE)
  {
    assume "\<not> response_ok r1"
    with merged show "snd (get_storage_account_metrics w sa token timespan) =
                     ebind (collect_response others_step r2 Map.empty) (\<lambda>m2. Inr (Some m2))"
      by blast
  }
  {
    assume "\<not> response_ok r2"
    with merged show "snd (get_storage_account_metrics w sa token timespan) =
                     ebind (collect_response capacity_step r1 Map.empty) (\<lambda>m1. Inr (Some m1))"
      by blast
  }
next
  assume "requests_get w (url_capacity w resource_id) (bearer token) = Inl e"
  with assms show "get_storage_account_metrics w sa token timespan =
                ([url_capacity w resource_id], Inl e)"
    by (rule capacity_call_raises)
next
  assume a: "requests_get w (url_capacity w resource_id) (bearer token) = Inr r1
            \<and> collect_response capacity_step r1 Map.empty = Inr m
            \<and> requests_get w (url_metrics w resource_id) (bearer token) = Inl e"
  then show "get_storage_account_metrics w sa token timespan =
                ([url_capacity w resource_id, url_metrics w resource_id], Inl e)"
    using metrics_call_raises [OF assms, of w token r1 m e timespan] by blast
qed

theorem metric_calls_merge_witness:
  "snd (get_storage_account_metrics capacity_failed_world example_account ''token'' JNull) =
     Inr (Some [''Transactions'' \<mapsto> 15 / 2])"
proof -
  let ?rid = "JStr ''/subscriptions/s/resourceGroups/rg-a/providers/Microsoft.Storage/storageAccounts/acct1''"
  let ?r1 = "\<lparr>status_code = 500, body = None\<rparr>"
  let ?r2 = "\<lparr>status_code = 200,
              body = Some (JObj [(''value'',
                JArr [example_metric ''Transactions'' example_points])])\<rparr>"
  have 1: "py_get example_account ''id'' JNull = Inr ?rid"
    by (simp add: example_account_def)
  have 2: "py_truthy ?rid"
    by simp
  have 3: "requests_get capacity_failed_world (url_capacity capacity_failed_world ?rid)
             (bearer ''token'') = Inr ?r1"
    unfolding capacity_failed_world_def by (simp add: example_urls)
  have 4: "requests_get capacity_failed_world (url_metrics capacity_failed_world ?rid)
             (bearer ''token'') = Inr ?r2"
    unfolding capacity_failed_world_def by (simp add: example_urls)
  have 5: "\<not> response_ok ?r1"
    by (simp add: response_ok_def)
  have 6: "collect_response others_step ?r2 Map.empty = Inr [''Transactions'' \<mapsto> 15 / 2]"
    by (simp add: collect_response_def response_ok_def response_json_def
        example_transactions_step)
  from metric_calls_merge [OF 1 2, where w = capacity_failed_world and token = "''token''"
      and ?r1.0 = ?r1 and ?r2.0 = ?r2 and timespan = JNull] 3 4
  have "\<not> response_ok ?r1 \<longrightarrow>
          snd (get_storage_account_metrics capacity_failed_world example_account ''token'' JNull) =
            ebind (collect_response others_step ?r2 Map.empty) (\<lambda>m2. Inr (Some m2))"
    by blast
  with 5 6 show ?thesis
    by simp
qed

text \<open>
  C8 as first stated fails when a call fails by raising: the exception of the
  UsedCapacity request leaves the function, and the samples of the other request are
  never fetched.
\<close>

theorem call_exception_propagates:
  "get_storage_account_metrics capacity_down_world example_account ''token'' JNull =
     ([url_capacity capacity_down_world
         (JStr ''/subscriptions/s/resourceGroups/rg-a/providers/Microsoft.Storage/storageAccounts/acct1'')],
      Inl ConnectionError)"
  by (simp add: get_storage_account_metrics_def example_account_def capacity_down_world_def
      url_capacity_def metrics_url_def resource_url_def api_version_metrics_def)

subsection \<open>A storage account without an identifier\<close>

text \<open>
  C9. For a storage-account descriptor with no "id" field,
  \<^verbatim>\<open>get_storage_account_metrics\<close> returns \<^verbatim>\<open>None\<close> and requests nothing; the result built
  in \<^verbatim>\<open>main\<close> carries \<^verbatim>\<open>None\<close>, and its exported row shows "N/A" in all seven metric
  columns.
\<close>

theorem no_id_no_metrics:
  assumes "map_of kvs ''id'' = None"
  shows "get_storage_account_metrics w (JObj kvs) token timespan = ([], Inr None)
         \<and> (\<exists>sa_name. storage_result_of w token (JObj kvs) =
               Inr \<lparr>storage_account = sa_name, result_resource_group = ''N/A'',
                    result_metrics = None\<rparr>
             \<and> storage_row \<lparr>storage_account = sa_name, result_resource_group = ''N/A'',
                    result_metrics = None\<rparr> =
               [Value sa_name, Text ''N/A''] @ replicate 7 (Text ''N/A''))"
proof -
  have m: "get_storage_account_metrics w (JObj kvs) token timespan = ([], Inr None)" for timespan
    using assms by (simp add: get_storage_account_metrics_def)
  have "storage_result_of w token (JObj kvs) =
          Inr \<lparr>storage_account = (case map_of kvs ''name'' of None \<Rightarrow> JStr ''N/A'' | Some v \<Rightarrow> v),
               result_resource_group = ''N/A'', result_metrics = None\<rparr>"
    using assms by (simp add: storage_result_of_def m)
  moreover have "storage_row \<lparr>storage_account = sa_name, result_resource_group = ''N/A'',
                    result_metrics = None\<rparr> =
               [Value sa_name, Text ''N/A''] @ replicate 7 (Text ''N/A'')" for sa_name
    by (simp add: storage_row_def metric_cell_def numeral_eq_Suc)
  ultimately show ?thesis
    using m by blast
qed

theorem no_id_no_metrics_witness:
  "get_storage_account_metrics (constant_world (Inl ConnectionError))
     (JObj [(''name'', JStr ''acct1'')]) ''token'' JNull = ([], Inr None)"
  using no_id_no_metrics [of "[(''name'', JStr ''acct1'')]"
      "constant_world (Inl ConnectionError)" "''token''" JNull]
  by simp

subsection \<open>Resource-group keys\<close>

lemma map_of_append_machine:
  "map_of groups rg = Some ms \<Longrightarrow> map_of (append_machine rg m groups) rg = Some (ms @ [m])"
  by (induction groups) auto

lemma map_of_append_machine_other:
  "rg' \<noteq> rg \<Longrightarrow> map_of (append_machine rg m groups) rg' = map_of groups rg'"
  by (induction groups) auto

lemma filter_append_machine:
  "map_of groups rg \<noteq> None \<Longrightarrow>
   length (filter P (concat (map snd (append_machine rg m groups)))) =
     length (filter P (concat (map snd groups))) + (if P m then 1 else 0)"
  by (induction groups) auto

lemma map_of_snoc_new:
  "map_of groups rg = None \<Longrightarrow> map_of (groups @ [(rg, [])]) rg = Some []"
  by (induction groups) auto

lemma process_vm_result:
  assumes "py_get vm ''name'' (JStr ''Unnamed'') = Inr vm_name"
    and "py_get vm ''id'' (JStr []) = Inr resource_id"
    and "vm_rg_name resource_id = Inr rg"
  shows "\<exists>vm'. process_vm w vm vm_type token vm_metrics = Inr vm'
           \<and> total_machines vm' = Suc (total_machines vm_metrics)
           \<and> total_monitored vm' = total_monitored vm_metrics
                + (if monitored (new_machine w vm_name resource_id vm_type token) then 1 else 0)
           \<and> map_of (resource_groups vm') rg =
                Some (group_machines vm_metrics rg @ [new_machine w vm_name resource_id vm_type token])
           \<and> (\<forall>P. length (filter P (all_machines vm')) = length (filter P (all_machines vm_metrics))
                + (if P (new_machine w vm_name resource_id vm_type token) then 1 else 0))"
proof (cases "map_of (resource_groups vm_metrics) rg")
  case None
  then have 1: "map_of (resource_groups vm_metrics @ [(rg, [])]) rg = Some []"
    by (rule map_of_snoc_new)
  have 2: "map_of (append_machine rg m (resource_groups vm_metrics @ [(rg, [])])) rg = Some ([] @ [m])" for m
    using 1 by (rule map_of_append_machine)
  have 3: "length (filter P (concat (map snd (append_machine rg m (resource_groups vm_metrics @ [(rg, [])]))))) =
     length (filter P (concat (map snd (resource_groups vm_metrics @ [(rg, [])])))) + (if P m then 1 else 0)" for P m
    by (rule filter_append_machine) (simp add: 1)
  show ?thesis
    using assms None 2 3
    by (simp add: process_vm_def Let_def new_machine_def group_machines_def all_machines_def)
next
  case (Some ms)
  have 2: "map_of (append_machine rg m (resource_groups vm_metrics)) rg = Some (ms @ [m])" for m
    using Some by (rule map_of_append_machine)
  have 3: "length (filter P (concat (map snd (append_machine rg m (resource_groups vm_metrics))))) =
     length (filter P (concat (map snd (resource_groups vm_metrics)))) + (if P m then 1 else 0)" for P m
    by (rule filter_append_machine) (simp add: Some)
  show ?thesis
    using assms Some 2 3
    by (simp add: process_vm_def Let_def new_machine_def group_machines_def all_machines_def)
qed

lemma split_slash_nonempty: "split_slash s \<noteq> []"
  by (induction s) (auto split: list.splits)





text \<open>
  C3, as amended. A VM or Arc descriptor whose identifier is missing, null or empty is
  put in the group "unknown": its record is appended there, the machine count grows by
  one, and \<^verbatim>\<open>process_vm\<close> does not raise.
\<close>

theorem missing_id_unknown_group:
  assumes "py_get vm ''name'' (JStr ''Unnamed'') = Inr vm_name"
    and "py_get vm ''id'' (JStr []) = Inr resource_id"
    and "\<not> py_truthy resource_id"
  shows "\<exists>vm' m. process_vm w vm vm_type token vm_metrics = Inr vm'
           \<and> machine_name m = vm_name
           \<and> map_of (resource_groups vm') ''unknown'' =
               Some (group_machines vm_metrics ''unknown'' @ [m])
           \<and> total_machines vm' = Suc (total_machines vm_metrics)
           \<and> length (all_machines vm') = Suc (length (all_machines vm_metrics))"
proof -
  have rg: "vm_rg_name resource_id = Inr ''unknown''"
    using assms(3) by (simp add: vm_rg_name_def)
  from process_vm_result [OF assms(1,2) rg, of w vm_type token vm_metrics]
  obtain vm' where r: "process_vm w vm vm_type token vm_metrics = Inr vm'"
      "total_machines vm' = Suc (total_machines vm_metrics)"
      "map_of (resource_groups vm') ''unknown'' =
         Some (group_machines vm_metrics ''unknown'' @ [new_machine w vm_name resource_id vm_type token])"
      "\<forall>P. length (filter P (all_machines vm')) = length (filter P (all_machines vm_metrics))
                + (if P (new_machine w vm_name resource_id vm_type token) then 1 else 0)"
    by blast
  from r(4) [rule_format, of "\<lambda>m. True"]
  have "length (filter (\<lambda>m. True) (all_machines vm')) =
      length (filter (\<lambda>m. True) (all_machines vm_metrics)) + 1"
    by simp
  then have "length (all_machines vm') = Suc (length (all_machines vm_metrics))"
    by simp
  moreover have "machine_name (new_machine w vm_name resource_id vm_type token) = vm_name"
    by (simp add: new_machine_def)
  ultimately show ?thesis
    using r(1-3) by blast
qed

theorem missing_id_unknown_group_witness:
  "\<exists>vm' m. process_vm down_world (JObj [(''name'', JStr ''vm1'')]) ''Compute'' ''token''
              \<lparr>total_machines = 0, total_monitored = 0, resource_groups = []\<rparr> = Inr vm'
           \<and> machine_name m = JStr ''vm1''
           \<and> map_of (resource_groups vm') ''unknown'' = Some [m]
           \<and> total_machines vm' = 1"
  using missing_id_unknown_group [of "JObj [(''name'', JStr ''vm1'')]" "JStr ''vm1''" "JStr []"
      down_world "''Compute''" "''token''"
      "\<lparr>total_machines = 0, total_monitored = 0, resource_groups = []\<rparr>"]
  by (simp add: group_machines_def) blast

text \<open>
  C3 as first stated fails for a malformed identifier: a VM identifier with fewer than
  five segments raises \<^verbatim>\<open>IndexError\<close> out of \<^verbatim>\<open>process_vm\<close>, and a network item without an
  identifier ends the item loop, so that two items are counted and none is recorded.
\<close>

theorem malformed_id_fails:
  "process_vm down_world vm_without_group ''Compute'' ''token''
     \<lparr>total_machines = 0, total_monitored = 0, resource_groups = []\<rparr> = Inl IndexError
   \<and> collect_kind
       (constant_world (Inr \<lparr>status_code = 200,
          body = Some (JObj [(''value'', JArr [JObj [(''name'', JStr ''nic1'')], vnet_lower])])\<rparr>))
       ''s'' ''token'' ''/providers/Microsoft.Network/networkInterfaces''
       \<lparr>count = 0, items = []\<rparr> = \<lparr>count = 2, items = []\<rparr>"
  by (simp add: process_vm_def vm_without_group_def vm_rg_name_def collect_kind_def
      constant_world_def response_ok_def response_json_def resource_info_of_def)

subsection \<open>Failed detail lookups\<close>

lemma power_state_lookup_failed:
  "lookup_failed (requests_get w (instance_view_url w resource_id vm_type) (bearer token)) \<Longrightarrow>
   get_vm_power_state w resource_id token vm_type = ''unknown''"
  by (auto simp: lookup_failed_def get_vm_power_state_def power_state_try_def
      split: sum.splits)

lemma resource_health_lookup_failed:
  "health_lookup_failed (requests_get w (health_url w resource_id) (bearer token)) \<Longrightarrow>
   get_resource_health w resource_id token = JStr ''Unknown''"
  by (auto simp: health_lookup_failed_def get_resource_health_def Let_def split: sum.splits)

lemma vm_detail_failure:
  assumes "py_get vm ''name'' (JStr ''Unnamed'') = Inr vm_name"
    and "py_get vm ''id'' (JStr []) = Inr resource_id"
    and "vm_rg_name resource_id = Inr rg"
    and "lookup_failed (requests_get w (instance_view_url w resource_id vm_type) (bearer token))"
  shows "get_vm_power_state w resource_id token vm_type = ''unknown''
         \<and> (\<exists>vm' m. process_vm w vm vm_type token vm_metrics = Inr vm'
               \<and> machine_name m = vm_name \<and> power_state m = ''unknown''
               \<and> map_of (resource_groups vm') rg = Some (group_machines vm_metrics rg @ [m])
               \<and> total_machines vm' = Suc (total_machines vm_metrics))"
proof -
  have u: "get_vm_power_state w resource_id token vm_type = ''unknown''"
    using assms(4) by (rule power_state_lookup_failed)
  let ?m = "new_machine w vm_name resource_id vm_type token"
  from process_vm_result [OF assms(1-3), of w vm_type token vm_metrics]
  obtain vm' where "process_vm w vm vm_type token vm_metrics = Inr vm'"
      "total_machines vm' = Suc (total_machines vm_metrics)"
      "map_of (resource_groups vm') rg = Some (group_machines vm_metrics rg @ [?m])"
    by blast
  moreover have "machine_name ?m = vm_name" "power_state ?m = ''unknown''"
    by (simp_all add: new_machine_def u)
  ultimately show ?thesis
    using u by blast
qed

lemma network_detail_failure:
  assumes "py_get item ''id'' JNull = Inr (JStr rid)"
    and "segment4 (JStr rid) = Inr rg"
    and "py_get item ''properties'' (JObj []) = Inr props"
    and "py_get props ''provisioningState'' (JStr ''Unknown'') = Inr prov"
    and "health_lookup_failed (requests_get w (health_url w (JStr rid)) (bearer token))"
  shows "get_resource_health w (JStr rid) token = JStr ''Unknown''
         \<and> (\<exists>info. resource_info_of w token item = Inr info
               \<and> health_state info = JStr ''Unknown''
               \<and> append_items w token (item # rest) acc =
                   append_items w token rest (acc @ [info]))"
proof -
  have h: "get_resource_health w (JStr rid) token = JStr ''Unknown''"
    using assms(5) by (rule resource_health_lookup_failed)
  have i: "py_get item ''id'' (JStr []) = Inr (JStr rid)"
    using assms(1) by (rule py_get_default) simp
  obtain n where n: "py_get item ''name'' JNull = Inr n"
    using assms(1) by (cases item) auto
  have "resource_info_of w token item =
          Inr \<lparr>info_name = n, resource_group = rg, provisioning_state = prov,
               health_state = JStr ''Unknown''\<rparr>"
    using assms(1-4) h i n by (simp add: resource_info_of_def)
  then show ?thesis
    using h by simp
qed

lemma append_items_keeps: "set acc \<subseteq> set (append_items w token xs acc)"
proof (induction xs arbitrary: acc)
  case Nil
  show ?case by simp
next
  case (Cons x xs)
  show ?case
  proof (cases "resource_info_of w token x")
    case (Inl e)
    then show ?thesis by simp
  next
    case (Inr info)
    with Cons.IH [of "acc @ [info]"] show ?thesis by auto
  qed
qed

lemma append_items_built:
  "\<forall>x \<in> set before. \<exists>i. resource_info_of w token x = Inr i \<Longrightarrow>
   \<exists>infos. append_items w token (before @ xs) acc = append_items w token xs (acc @ infos)"
proof (induction before arbitrary: acc)
  case Nil
  have "append_items w token ([] @ xs) acc = append_items w token xs (acc @ [])"
    by simp
  then show ?case by blast
next
  case (Cons x before)
  from Cons.prems obtain i where i: "resource_info_of w token x = Inr i"
    by auto
  from Cons.prems have "\<forall>y \<in> set before. \<exists>i. resource_info_of w token y = Inr i"
    by simp
  from Cons.IH [OF this, of "acc @ [i]"] obtain infos where
    "append_items w token (before @ xs) (acc @ [i]) = append_items w token xs ((acc @ [i]) @ infos)"
    by blast
  with i have "append_items w token ((x # before) @ xs) acc =
      append_items w token xs (acc @ (i # infos))"
    by simp
  then show ?case by blast
qed

lemma collect_kind_listing:
  assumes "requests_get w (network_url subscription resource_path) (bearer token) = Inr listing"
    and "response_ok listing"
    and "body listing = Some data"
    and "py_get data ''value'' (JArr []) = Inr (JArr its)"
  shows "collect_kind w subscription token resource_path entry =
           entry\<lparr>count := length its, items := append_items w token its (items entry)\<rparr>"
  using assms by (simp add: collect_kind_def response_json_def)

lemma network_record_kept:
  assumes "requests_get w (network_url subscription resource_path) (bearer token) = Inr listing"
    and "response_ok listing"
    and "body listing = Some data"
    and "py_get data ''value'' (JArr []) = Inr (JArr (before @ item # after))"
    and "\<forall>x \<in> set before. \<exists>i. resource_info_of w token x = Inr i"
    and "py_get item ''id'' JNull = Inr (JStr rid)"
    and "segment4 (JStr rid) = Inr rg"
    and "py_get item ''properties'' (JObj []) = Inr props"
    and "py_get props ''provisioningState'' (JStr ''Unknown'') = Inr prov"
    and "health_lookup_failed (requests_get w (health_url w (JStr rid)) (bearer token))"
  shows "get_resource_health w (JStr rid) token = JStr ''Unknown''
         \<and> (\<exists>info. resource_info_of w token item = Inr info
               \<and> health_state info = JStr ''Unknown''
               \<and> info \<in> set (items (collect_kind w subscription token resource_path entry)))
         \<and> count (collect_kind w subscription token resource_path entry) =
             length (before @ item # after)"
proof -
  let ?result = "collect_kind w subscription token resource_path entry"
  have r: "?result = entry\<lparr>count := length (before @ item # after),
                           items := append_items w token (before @ item # after) (items entry)\<rparr>"
    using assms(1-4) by (rule collect_kind_listing)
  from append_items_built [OF assms(5), of "item # after" "items entry"] obtain infos where
    b: "append_items w token (before @ item # after) (items entry) =
          append_items w token (item # after) (items entry @ infos)"
    by blast
  from network_detail_failure [OF assms(6-10), of after "items entry @ infos"]
  obtain info where h: "get_resource_health w (JStr rid) token = JStr ''Unknown''"
    and i: "resource_info_of w token item = Inr info" "health_state info = JStr ''Unknown''"
    and a: "append_items w token (item # after) (items entry @ infos) =
              append_items w token after ((items entry @ infos) @ [info])"
    by blast
  have "info \<in> set ((items entry @ infos) @ [info])"
    by simp
  with append_items_keeps [of "(items entry @ infos) @ [info]" w token after]
  have "info \<in> set (append_items w token after ((items entry @ infos) @ [info]))"
    by blast
  with r a b have "info \<in> set (items ?result)"
    by simp
  moreover from r have "count ?result = length (before @ item # after)"
    by simp
  ultimately show ?thesis
    using h i by blast
qed

text \<open>
  C6, as amended. When the instance-view lookup of a VM or Arc machine whose identifier
  yields a group key fails (it raises, or is answered with a status other than 200), the
  power state is "unknown", nothing is raised, the record is appended to its group with
  that power state and the machine count grows by one. When the health lookup of a
  network item fails (it raises, or is answered with an error status, that is, the
  response is not ok), the health state is "Unknown"; if the listing was answered and
  the items before it were recorded, the item's record is among the items of its
  resource type with that health state, and the count of the type is the number of
  listed items, this one included.
\<close>

theorem detail_failure_degrades:
  "(py_get vm ''name'' (JStr ''Unnamed'') = Inr vm_name
      \<and> py_get vm ''id'' (JStr []) = Inr resource_id
      \<and> vm_rg_name resource_id = Inr rg
      \<and> lookup_failed (requests_get w (instance_view_url w resource_id vm_type) (bearer token))
    \<longrightarrow> get_vm_power_state w resource_id token vm_type = ''unknown''
         \<and> (\<exists>vm' m. process_vm w vm vm_type token vm_metrics = Inr vm'
               \<and> machine_name m = vm_name \<and> power_state m = ''unknown''
               \<and> map_of (resource_groups vm') rg = Some (group_machines vm_metrics rg @ [m])
               \<and> total_machines vm' = Suc (total_machines vm_metrics)))
   \<and> (requests_get w (network_url subscription resource_path) (bearer token) = Inr listing
      \<and> response_ok listing
      \<and> body listing = Some data
      \<and> py_get data ''value'' (JArr []) = Inr (JArr (before @ item # after))
      \<and> (\<forall>x \<in> set before. \<exists>i. resource_info_of w token x = Inr i)
      \<and> py_get item ''id'' JNull = Inr (JStr rid)
      \<and> segment4 (JStr rid) = Inr rg'
      \<and> py_get item ''properties'' (JObj []) = Inr props
      \<and> py_get props ''provisioningState'' (JStr ''Unknown'') = Inr prov
      \<and> health_lookup_failed (requests_get w (health_url w (JStr rid)) (bearer token))
    \<longrightarrow> get_resource_health w (JStr rid) token = JStr ''Unknown''
         \<and> (\<exists>info. resource_info_of w token item = Inr info
               \<and> health_state info = JStr ''Unknown''
               \<and> info \<in> set (items (collect_kind w subscription token resource_path entry)))
         \<and> count (collect_kind w subscription token resource_path entry) =
             length (before @ item # after))"
proof (rule conjI)
  show "py_get vm ''name'' (JStr ''Unnamed'') = Inr vm_name
      \<and> py_get vm ''id'' (JStr []) = Inr resource_id
      \<and> vm_rg_name resource_id = Inr rg
      \<and> lookup_failed (requests_get w (instance_view_url w resource_id vm_type) (bearer token))
    \<longrightarrow> get_vm_power_state w resource_id token vm_type = ''unknown''
         \<and> (\<exists>vm' m. process_vm w vm vm_type token vm_metrics = Inr vm'
               \<and> machine_name m = vm_name \<and> power_state m = ''unknown''
               \<and> map_of (resource_groups vm') rg = Some (group_machines vm_metrics rg @ [m])
               \<and> total_machines vm' = Suc (total_machines vm_metrics))"
    using vm_detail_failure [of vm vm_name resource_id rg w vm_type token vm_metrics]
    by blast
next
  show "requests_get w (network_url subscription resource_path) (bearer token) = Inr listing
      \<and> response_ok listing
      \<and> body listing = Some data
      \<and> py_get data ''value'' (JArr []) = Inr (JArr (before @ item # after))
      \<and> (\<forall>x \<in> set before. \<exists>i. resource_info_of w token x = Inr i)
      \<and> py_get item ''id'' JNull = Inr (JStr rid)
      \<and> segment4 (JStr rid) = Inr rg'
      \<and> py_get item ''properties'' (JObj []) = Inr props
      \<and> py_get props ''provisioningState'' (JStr ''Unknown'') = Inr prov
      \<and> health_lookup_failed (requests_get w (health_url w (JStr rid)) (bearer token))
    \<longrightarrow> get_resource_health w (JStr rid) token = JStr ''Unknown''
         \<and> (\<exists>info. resource_info_of w token item = Inr info
               \<and> health_state info = JStr ''Unknown''
               \<and> info \<in> set (items (collect_kind w subscription token resource_path entry)))
         \<and> count (collect_kind w subscription token resource_path entry) =
             length (before @ item # after)"
  proof (intro impI, elim conjE)
    assume "requests_get w (network_url subscription resource_path) (bearer token) = Inr listing"
      "response_ok listing" "body listing = Some data"
      "py_get data ''value'' (JArr []) = Inr (JArr (before @ item # after))"
      "\<forall>x \<in> set before. \<exists>i. resource_info_of w token x = Inr i"
      "py_get item ''id'' JNull = Inr (JStr rid)"
      "segment4 (JStr rid) = Inr rg'"
      "py_get item ''properties'' (JObj []) = Inr props"
      "py_get props ''provisioningState'' (JStr ''Unknown'') = Inr prov"
      "health_lookup_failed (requests_get w (health_url w (JStr rid)) (bearer token))"
    then show "get_resource_health w (JStr rid) token = JStr ''Unknown''
         \<and> (\<exists>info. resource_info_of w token item = Inr info
               \<and> health_state info = JStr ''Unknown''
               \<and> info \<in> set (items (collect_kind w subscription token resource_path entry)))
         \<and> count (collect_kind w subscription token resource_path entry) =
             length (before @ item # after)"
      by (rule network_record_kept)
  qed
qed

lemma detail_down_urls:
  "py_in_str ''publicIPAddresses?'' (network_url ''s'' ''/providers/Microsoft.Network/publicIPAddresses'')"
  "\<not> py_in_str ''publicIPAddresses?'' (health_url w (JStr
     ''/subscriptions/s/resourceGroups/rg-a/providers/Microsoft.Network/virtualNetworks/vnet1''))"
  "\<not> py_in_str ''publicIPAddresses?'' (instance_view_url w (JStr
     ''/subscriptions/s/resourceGroups/RG-A/providers/Microsoft.Compute/virtualMachines/vm1'') ''Compute'')"
  by (simp_all add: network_url_def health_url_def instance_view_url_def resource_url_def
      api_version_network_def api_version_vm_def)

theorem detail_failure_degrades_witness:
  "get_vm_power_state detail_down_world
     (JStr ''/subscriptions/s/resourceGroups/RG-A/providers/Microsoft.Compute/virtualMachines/vm1'')
     ''token'' ''Compute'' = ''unknown''
   \<and> (\<exists>vm' m. process_vm detail_down_world example_vm ''Compute'' ''token''
                 \<lparr>total_machines = 0, total_monitored = 0, resource_groups = []\<rparr> = Inr vm'
         \<and> machine_name m = JStr ''vm1'' \<and> power_state m = ''unknown''
         \<and> map_of (resource_groups vm') ''rg-a'' = Some [m]
         \<and> total_machines vm' = 1)
   \<and> get_resource_health detail_down_world
       (JStr ''/subscriptions/s/resourceGroups/rg-a/providers/Microsoft.Network/virtualNetworks/vnet1'')
       ''token'' = JStr ''Unknown''
   \<and> (\<exists>info. resource_info_of detail_down_world ''token'' vnet_lower = Inr info
         \<and> health_state info = JStr ''Unknown''
         \<and> info \<in> set (items (collect_kind detail_down_world ''s'' ''token''
                    ''/providers/Microsoft.Network/publicIPAddresses'' empty_entry)))
   \<and> count (collect_kind detail_down_world ''s'' ''token''
        ''/providers/Microsoft.Network/publicIPAddresses'' empty_entry) = 1"
proof -
  let ?vid = "JStr ''/subscriptions/s/resourceGroups/RG-A/providers/Microsoft.Compute/virtualMachines/vm1''"
  let ?nid = "''/subscriptions/s/resourceGroups/rg-a/providers/Microsoft.Network/virtualNetworks/vnet1''"
  let ?vm0 = "\<lparr>total_machines = 0, total_monitored = 0, resource_groups = []\<rparr>"
  let ?listing = "\<lparr>status_code = 200, body = Some (JObj [(''value'', JArr [vnet_lower])])\<rparr>"
  have 1: "py_get example_vm ''name'' (JStr ''Unnamed'') = Inr (JStr ''vm1'')"
    and 2: "py_get example_vm ''id'' (JStr []) = Inr ?vid"
    by (simp_all add: example_vm_def)
  have 3: "vm_rg_name ?vid = Inr ''rg-a''"
    by (simp add: vm_rg_name_def lower_def char_lower_def)
  have 4: "lookup_failed (requests_get detail_down_world
             (instance_view_url detail_down_world ?vid ''Compute'') (bearer ''token''))"
    unfolding detail_down_world_def by (simp add: lookup_failed_def detail_down_urls)
  have 5: "py_get vnet_lower ''id'' JNull = Inr (JStr ?nid)"
    and 7: "py_get vnet_lower ''properties'' (JObj []) = Inr (JObj [])"
    by (simp_all add: vnet_lower_def)
  have 6: "segment4 (JStr ?nid) = Inr ''rg-a''"
    by simp
  have 8: "py_get (JObj []) ''provisioningState'' (JStr ''Unknown'') = Inr (JStr ''Unknown'')"
    by simp
  have 9: "health_lookup_failed (requests_get detail_down_world
             (health_url detail_down_world (JStr ?nid)) (bearer ''token''))"
    unfolding detail_down_world_def by (simp add: health_lookup_failed_def detail_down_urls)
  have 10: "requests_get detail_down_world
      (network_url ''s'' ''/providers/Microsoft.Network/publicIPAddresses'') (bearer ''token'') =
      Inr ?listing"
    unfolding detail_down_world_def by (simp add: detail_down_urls)
  have 11: "response_ok ?listing" "body ?listing = Some (JObj [(''value'', JArr [vnet_lower])])"
    by (simp_all add: response_ok_def)
  have 12: "py_get (JObj [(''value'', JArr [vnet_lower])]) ''value'' (JArr []) =
      Inr (JArr ([] @ vnet_lower # []))"
    by simp
  have 13: "\<forall>x \<in> set []. \<exists>i. resource_info_of detail_down_world ''token'' x = Inr i"
    by simp
  note t = detail_failure_degrades [where vm = example_vm and vm_name = "JStr ''vm1''"
      and resource_id = ?vid and rg = "''rg-a''" and w = detail_down_world
      and vm_type = "''Compute''" and token = "''token''" and vm_metrics = ?vm0
      and subscription = "''s''"
      and resource_path = "''/providers/Microsoft.Network/publicIPAddresses''"
      and listing = ?listing and data = "JObj [(''value'', JArr [vnet_lower])]"
      and before = "[]" and item = vnet_lower and after = "[]" and rid = ?nid
      and rg' = "''rg-a''" and props = "JObj []" and prov = "JStr ''Unknown''"
      and entry = empty_entry]
  from t 1 2 3 4 have a: "get_vm_power_state detail_down_world ?vid ''token'' ''Compute'' = ''unknown''
         \<and> (\<exists>vm' m. process_vm detail_down_world example_vm ''Compute'' ''token'' ?vm0 = Inr vm'
               \<and> machine_name m = JStr ''vm1'' \<and> power_state m = ''unknown''
               \<and> map_of (resource_groups vm') ''rg-a'' = Some (group_machines ?vm0 ''rg-a'' @ [m])
               \<and> total_machines vm' = Suc (total_machines ?vm0))"
    by blast
  from t 5 6 7 8 9 10 11 12 13
  have b: "get_resource_health detail_down_world (JStr ?nid) ''token'' = JStr ''Unknown''
         \<and> (\<exists>info. resource_info_of detail_down_world ''token'' vnet_lower = Inr info
               \<and> health_state info = JStr ''Unknown''
               \<and> info \<in> set (items (collect_kind detail_down_world ''s'' ''token''
                    ''/providers/Microsoft.Network/publicIPAddresses'' empty_entry)))
         \<and> count (collect_kind detail_down_world ''s'' ''token''
              ''/providers/Microsoft.Network/publicIPAddresses'' empty_entry) =
             length ([] @ vnet_lower # [])"
    by blast
  from a b show ?thesis
    by (simp add: group_machines_def)
qed

text \<open>
  C6 as first stated fails for the health lookup: answered with status 201, which is not
  200, and a body, the lookup reports the state of the body and not "Unknown".
\<close>

theorem health_lookup_201_reported:
  "lookup_failed (requests_get created_world (health_url created_world
       (JStr ''/subscriptions/s/resourceGroups/rg-a/providers/Microsoft.Network/virtualNetworks/vnet1''))
       (bearer ''token''))
   \<and> get_resource_health created_world
       (JStr ''/subscriptions/s/resourceGroups/rg-a/providers/Microsoft.Network/virtualNetworks/vnet1'')
       ''token'' = JStr ''Available''
   \<and> map_sum id health_state (resource_info_of created_world ''token'' vnet_lower) =
       Inr (JStr ''Available'')"
proof -
  have h: "get_resource_health created_world
       (JStr ''/subscriptions/s/resourceGroups/rg-a/providers/Microsoft.Network/virtualNetworks/vnet1'')
       ''token'' = JStr ''Available''"
    by (simp add: get_resource_health_def created_world_def constant_world_def response_ok_def
        response_json_def Let_def)
  have "map_sum id health_state (resource_info_of created_world ''token'' vnet_lower) =
       Inr (JStr ''Available'')"
    unfolding resource_info_of_def vnet_lower_def by (simp add: h)
  moreover have "lookup_failed (requests_get created_world (health_url created_world
       (JStr ''/subscriptions/s/resourceGroups/rg-a/providers/Microsoft.Network/virtualNetworks/vnet1''))
       (bearer ''token''))"
    by (simp add: lookup_failed_def created_world_def constant_world_def)
  ultimately show ?thesis
    using h by simp
qed

subsection \<open>Counters of the VM aggregate\<close>

lemma process_vm_cases:
  assumes "process_vm w vm vm_type token vm_metrics = Inr vm'"
  obtains vm_name resource_id rg where
    "py_get vm ''name'' (JStr ''Unnamed'') = Inr vm_name"
    "py_get vm ''id'' (JStr []) = Inr resource_id"
    "vm_rg_name resource_id = Inr rg"
  using assms by (auto simp: process_vm_def ebind_def split: sum.splits)

lemma process_vm_counters:
  assumes "counters_agree vm_metrics"
    and "process_vm w vm vm_type token vm_metrics = Inr vm'"
  shows "counters_agree vm'"
proof -
  from assms(2) obtain vm_name resource_id rg where
    h: "py_get vm ''name'' (JStr ''Unnamed'') = Inr vm_name"
    "py_get vm ''id'' (JStr []) = Inr resource_id"
    "vm_rg_name resource_id = Inr rg"
    by (rule process_vm_cases)
  let ?m = "new_machine w vm_name resource_id vm_type token"
  from process_vm_result [OF h, of w vm_type token vm_metrics] assms(2)
  have t: "total_machines vm' = Suc (total_machines vm_metrics)"
    and m: "total_monitored vm' = total_monitored vm_metrics + (if monitored ?m then 1 else 0)"
    and f: "\<forall>P. length (filter P (all_machines vm')) =
               length (filter P (all_machines vm_metrics)) + (if P ?m then 1 else 0)"
    by auto
  from f [rule_format, of "\<lambda>m. True"]
  have "length (all_machines vm') = Suc (length (all_machines vm_metrics))"
    by simp
  moreover from f [rule_format, of monitored]
  have "monitored_count (all_machines vm') =
          monitored_count (all_machines vm_metrics) + (if monitored ?m then 1 else 0)"
    by (simp add: monitored_count_def)
  ultimately show ?thesis
    using assms(1) t m by (simp add: counters_agree_def)
qed

lemma efold_process_vm_counters:
  "counters_agree vm_metrics \<Longrightarrow>
   efold (\<lambda>vm. process_vm w vm vm_type token) vms vm_metrics = Inr vm' \<Longrightarrow>
   counters_agree vm'"
proof (induction vms arbitrary: vm_metrics)
  case Nil
  then show ?case by simp
next
  case (Cons vm vms)
  from Cons.prems(2) obtain vm1 where
    s: "process_vm w vm vm_type token vm_metrics = Inr vm1"
    and r: "efold (\<lambda>vm. process_vm w vm vm_type token) vms vm1 = Inr vm'"
    by (auto simp: ebind_def split: sum.splits)
  from Cons.prems(1) s have "counters_agree vm1"
    by (rule process_vm_counters)
  then show ?case
    using r by (rule Cons.IH)
qed

lemma get_vm_metrics_counters:
  assumes "get_vm_metrics w token = Inr vm"
  shows "counters_agree vm"
proof -
  let ?vm0 = "\<lparr>total_machines = 0, total_monitored = 0, resource_groups = []\<rparr>"
  have 0: "counters_agree ?vm0"
    by (simp add: counters_agree_def all_machines_def monitored_count_def)
  from assms obtain vms machines vm1 where
    a: "efold (\<lambda>vm. process_vm w vm ''Compute'' token) vms ?vm0 = Inr vm1"
    and b: "efold (\<lambda>machine. process_vm w machine ''Arc'' token) machines vm1 = Inr vm"
    by (auto simp: get_vm_metrics_def Let_def ebind_def split: sum.splits)
  from 0 a have "counters_agree vm1"
    by (rule efold_process_vm_counters)
  then show ?thesis
    using b by (rule efold_process_vm_counters)
qed

lemma count_split: "monitored_count ms + not_monitored_count ms = length ms"
  by (simp add: monitored_count_def not_monitored_count_def sum_length_filter_compl)

lemma listing_world_power_state:
  "get_vm_power_state listing_world rid ''token'' vt = (if vt = ''Compute'' then ''unknown'' else ''stopped'')"
  by (simp add: get_vm_power_state_def power_state_try_def listing_world_def constant_world_def
      response_json_def lower_def)

lemma listing_world_insights:
  "get_vm_insights_status listing_world rid ''token'' vt = ''Enabled''"
  by (simp add: get_vm_insights_status_def insights_status_try_def listing_world_def
      constant_world_def response_json_def Let_def example_vm_def lower_def char_lower_def)

lemma listing_world_listings:
  "get_vms listing_world subscription_id ''token'' = Inr (JArr [example_vm])"
  "get_arc_machines listing_world subscription_id ''token'' = Inr (JArr [example_vm])"
  by (simp_all add: get_vms_def get_arc_machines_def listing_world_def constant_world_def
      raise_for_status_def response_json_def Let_def)

lemma listing_world_vm_metrics:
  "get_vm_metrics listing_world ''token'' =
     Inr \<lparr>total_machines = 2, total_monitored = 2,
          resource_groups =
            [(''rg-a'',
              [\<lparr>machine_name = JStr ''vm1'', machine_type = ''Compute'', power_state = ''unknown'',
                monitored = True, insights_status = ''Enabled''\<rparr>,
               \<lparr>machine_name = JStr ''vm1'', machine_type = ''Arc'', power_state = ''stopped'',
                monitored = True, insights_status = ''Enabled''\<rparr>])]\<rparr>"
proof -
  have rg: "vm_rg_name (JStr ''/subscriptions/s/resourceGroups/RG-A/providers/Microsoft.Compute/virtualMachines/vm1'') = Inr ''rg-a''"
    by (simp add: vm_rg_name_def lower_def char_lower_def)
  have p: "process_vm listing_world example_vm vt ''token'' st =
      Inr (st\<lparr>resource_groups := append_machine ''rg-a''
                \<lparr>machine_name = JStr ''vm1'', machine_type = vt,
                 power_state = (if vt = ''Compute'' then ''unknown'' else ''stopped''),
                 monitored = True, insights_status = ''Enabled''\<rparr>
                (if map_of (resource_groups st) ''rg-a'' = None
                 then resource_groups st @ [(''rg-a'', [])] else resource_groups st),
              total_machines := total_machines st + 1,
              total_monitored := total_monitored st + 1\<rparr>)" for vt st
    unfolding process_vm_def
    by (simp add: example_vm_def rg listing_world_power_state listing_world_insights Let_def)
  show ?thesis
    by (simp add: get_vm_metrics_def listing_world_listings p)
qed

text \<open>
  C7. After \<^verbatim>\<open>get_vm_metrics\<close>, \<^verbatim>\<open>total_monitored\<close> is the number of records whose
  \<open>monitored\<close> flag is true and \<^verbatim>\<open>total_machines\<close> the number of records; the three
  totals printed are the record count, the monitored count and the not-monitored count,
  and monitored plus not monitored is the total, globally and within every resource
  group (whose counts are those of its record list).
\<close>

theorem monitored_count_invariant:
  assumes "get_vm_metrics w token = Inr vm"
  shows "total_monitored vm = monitored_count (all_machines vm)
         \<and> total_machines vm = length (all_machines vm)
         \<and> vm_totals vm =
             (int (length (all_machines vm)), int (monitored_count (all_machines vm)),
              int (not_monitored_count (all_machines vm)))
         \<and> monitored_count (all_machines vm) + not_monitored_count (all_machines vm)
             = total_machines vm
         \<and> (\<forall>g \<in> set (resource_groups vm).
               monitored_count (snd g) + not_monitored_count (snd g) = length (snd g))"
proof -
  from assms have c: "counters_agree vm"
    by (rule get_vm_metrics_counters)
  have s: "monitored_count (all_machines vm) + not_monitored_count (all_machines vm)
             = length (all_machines vm)"
    by (rule count_split)
  from c s have "vm_totals vm =
             (int (length (all_machines vm)), int (monitored_count (all_machines vm)),
              int (not_monitored_count (all_machines vm)))"
    by (simp add: vm_totals_def counters_agree_def)
  with c s show ?thesis
    by (simp add: counters_agree_def count_split)
qed

theorem monitored_count_invariant_witness:
  "\<exists>vm. get_vm_metrics listing_world ''token'' = Inr vm
      \<and> total_machines vm = 2
      \<and> total_monitored vm = monitored_count (all_machines vm)
      \<and> vm_totals vm = (2, 2, 0)"
proof -
  from monitored_count_invariant [OF listing_world_vm_metrics] show ?thesis
    by (simp add: listing_world_vm_metrics vm_totals_def)
qed

subsection \<open>Failed listing calls\<close>

lemma network_entries:
  "\<forall>kp \<in> set resources.
     map_of (get_network_resources w subscription token) (fst kp) =
       Some (collect_kind w subscription token (snd kp) empty_entry)"
  by (simp add: get_network_resources_def resources_def initial_network_metrics_def
      update_entry_def empty_entry_def)


lemma collect_kind_not_ok:
  "requests_get w (network_url subscription resource_path) (bearer token) = Inr r \<Longrightarrow>
   \<not> response_ok r \<Longrightarrow>
   collect_kind w subscription token resource_path entry = entry"
  by (simp add: collect_kind_def)

lemma network_listing_failure:
  assumes "(resource_type, resource_path) \<in> set resources"
    and "requests_get w (network_url subscription resource_path) (bearer token) = Inr r"
    and "\<not> response_ok r"
  shows "map_of (get_network_resources w subscription token) resource_type = Some empty_entry"
proof -
  from network_entries [of w subscription token] assms(1)
  have "map_of (get_network_resources w subscription token) resource_type =
          Some (collect_kind w subscription token resource_path empty_entry)"
    by fastforce
  with assms(2,3) show ?thesis
    by (simp add: collect_kind_not_ok)
qed

lemma storage_listing_failure:
  assumes "get_token w = Inr token"
    and "requests_get w (storage_accounts_url subscription_id) (bearer token) = Inr r"
    and "\<not> response_ok r"
  shows "main w = Inl HTTPError"
  using assms
  by (simp add: main_def get_storage_accounts_def raise_for_status_def response_ok_def)

lemma vm_listing_failure:
  assumes "requests_get w (vms_url subscription_id) (bearer token) = Inr r"
    and "\<not> response_ok r"
  shows "get_vm_metrics w token = Inl HTTPError"
  using assms
  by (simp add: get_vm_metrics_def get_vms_def raise_for_status_def response_ok_def)

lemma arc_listing_failure:
  assumes "requests_get w (arc_machines_url subscription_id) (bearer token) = Inr r"
    and "\<not> response_ok r"
  shows "\<exists>e. get_vm_metrics w token = Inl e"
proof -
  have "get_arc_machines w subscription_id token = Inl HTTPError"
    using assms by (simp add: get_arc_machines_def raise_for_status_def response_ok_def)
  then show ?thesis
    by (auto simp: get_vm_metrics_def Let_def ebind_def split: sum.splits)
qed

lemma vm_failure_aborts:
  assumes "get_token w = Inr token"
    and "get_vm_metrics w token = Inl e"
  shows "\<exists>e'. main w = Inl e'"
  using assms by (auto simp: main_def ebind_def split: sum.splits)

lemma exit_code_abort: "r = Inl e \<Longrightarrow> exit_code r = Some 1"
  by (simp add: exit_code_def)

text \<open>
  C1, as amended. A network resource type whose listing is answered with a non-success
  status keeps its empty entry, and every network resource type's entry is what its own
  listing yields, whatever happens to the others. A non-success status on the listing of
  storage accounts, native VMs or Arc machines raises out of \<^verbatim>\<open>main\<close>, as a failure of
  the token provider does, and the run ends with a non-zero exit code.
\<close>

theorem listing_failure_semantics:
  "((resource_type, resource_path) \<in> set resources
      \<and> requests_get w (network_url subscription resource_path) (bearer token) = Inr r
      \<and> \<not> response_ok r
    \<longrightarrow> map_of (get_network_resources w subscription token) resource_type = Some empty_entry
        \<and> (\<forall>kp \<in> set resources.
              map_of (get_network_resources w subscription token) (fst kp) =
                Some (collect_kind w subscription token (snd kp) empty_entry)))
   \<and> (get_token w = Inr token
      \<and> requests_get w (storage_accounts_url subscription_id) (bearer token) = Inr r
      \<and> \<not> response_ok r
    \<longrightarrow> main w = Inl HTTPError \<and> exit_code (main w) = Some 1)
   \<and> (get_token w = Inr token
      \<and> (requests_get w (vms_url subscription_id) (bearer token) = Inr r
          \<or> requests_get w (arc_machines_url subscription_id) (bearer token) = Inr r)
      \<and> \<not> response_ok r
    \<longrightarrow> (\<exists>e. get_vm_metrics w token = Inl e)
        \<and> (\<exists>e. main w = Inl e) \<and> exit_code (main w) = Some 1)
   \<and> (get_token w = Inl e \<longrightarrow> main w = Inl e \<and> exit_code (main w) = Some 1)"
proof (intro conjI impI)
  assume a: "(resource_type, resource_path) \<in> set resources
      \<and> requests_get w (network_url subscription resource_path) (bearer token) = Inr r
      \<and> \<not> response_ok r"
  then show "map_of (get_network_resources w subscription token) resource_type = Some empty_entry"
    using network_listing_failure by blast
  show "\<forall>kp \<in> set resources.
          map_of (get_network_resources w subscription token) (fst kp) =
            Some (collect_kind w subscription token (snd kp) empty_entry)"
    by (rule network_entries)
next
  assume a: "get_token w = Inr token
      \<and> requests_get w (storage_accounts_url subscription_id) (bearer token) = Inr r
      \<and> \<not> response_ok r"
  then show m: "main w = Inl HTTPError"
    using storage_listing_failure by blast
  then show "exit_code (main w) = Some 1"
    by (rule exit_code_abort)
next
  assume a: "get_token w = Inr token
      \<and> (requests_get w (vms_url subscription_id) (bearer token) = Inr r
          \<or> requests_get w (arc_machines_url subscription_id) (bearer token) = Inr r)
      \<and> \<not> response_ok r"
  then show v: "\<exists>e. get_vm_metrics w token = Inl e"
    using vm_listing_failure arc_listing_failure by blast
  with a show m: "\<exists>e. main w = Inl e"
    using vm_failure_aborts by blast
  then show "exit_code (main w) = Some 1"
    using exit_code_abort by blast
next
  assume a: "get_token w = Inl e"
  then show m: "main w = Inl e"
    by (simp add: main_def)
  then show "exit_code (main w) = Some 1"
    by (rule exit_code_abort)
qed

lemma vnet_down_urls:
  "py_in_str ''virtualNetworks?'' (network_url ''s'' ''/providers/Microsoft.Network/virtualNetworks'')"
  "\<not> py_in_str ''virtualNetworks?'' (network_url ''s'' ''/providers/Microsoft.Network/publicIPAddresses'')"
  "\<not> py_in_str ''virtualNetworks?'' (health_url w (JStr
     ''/subscriptions/s/resourceGroups/rg-a/providers/Microsoft.Network/virtualNetworks/vnet1''))"
  by (simp_all add: network_url_def health_url_def resource_url_def api_version_network_def)

lemma vnet_down_public_ips:
  "collect_kind vnet_down_world ''s'' ''token'' ''/providers/Microsoft.Network/publicIPAddresses''
     empty_entry =
   \<lparr>count = 1,
    items = [\<lparr>info_name = JStr ''vnet1'', resource_group = ''rg-a'',
              provisioning_state = JStr ''Unknown'', health_state = JStr ''Unknown''\<rparr>]\<rparr>"
proof -
  have h: "get_resource_health vnet_down_world (JStr
     ''/subscriptions/s/resourceGroups/rg-a/providers/Microsoft.Network/virtualNetworks/vnet1'')
     ''token'' = JStr ''Unknown''"
    unfolding get_resource_health_def vnet_down_world_def
    by (simp add: vnet_down_urls response_ok_def response_json_def Let_def)
  have i: "resource_info_of vnet_down_world ''token'' vnet_lower =
      Inr \<lparr>info_name = JStr ''vnet1'', resource_group = ''rg-a'',
              provisioning_state = JStr ''Unknown'', health_state = JStr ''Unknown''\<rparr>"
    unfolding resource_info_of_def vnet_lower_def
    by (simp add: h)
  have r: "requests_get vnet_down_world
      (network_url ''s'' ''/providers/Microsoft.Network/publicIPAddresses'') (bearer ''token'') =
      Inr \<lparr>status_code = 200, body = Some (JObj [(''value'', JArr [vnet_lower])])\<rparr>"
    unfolding vnet_down_world_def by (simp add: vnet_down_urls)
  show ?thesis
    unfolding collect_kind_def
    by (simp add: r i response_ok_def response_json_def empty_entry_def)
qed

theorem listing_failure_semantics_witness:
  "map_of (get_network_resources vnet_down_world ''s'' ''token'') ''virtual_networks'' =
     Some \<lparr>count = 0, items = []\<rparr>
   \<and> map_of (get_network_resources vnet_down_world ''s'' ''token'') ''public_ips'' =
     Some \<lparr>count = 1,
           items = [\<lparr>info_name = JStr ''vnet1'', resource_group = ''rg-a'',
                     provisioning_state = JStr ''Unknown'', health_state = JStr ''Unknown''\<rparr>]\<rparr>"
proof -
  let ?r = "\<lparr>status_code = 500, body = None\<rparr>"
  have 1: "(''virtual_networks'', ''/providers/Microsoft.Network/virtualNetworks'') \<in> set resources"
    and 2: "(''public_ips'', ''/providers/Microsoft.Network/publicIPAddresses'') \<in> set resources"
    by (simp_all add: resources_def)
  have 3: "requests_get vnet_down_world
      (network_url ''s'' ''/providers/Microsoft.Network/virtualNetworks'') (bearer ''token'') = Inr ?r"
    unfolding vnet_down_world_def by (simp add: vnet_down_urls)
  have 4: "\<not> response_ok ?r"
    by (simp add: response_ok_def)
  from listing_failure_semantics [of "''virtual_networks''"
      "''/providers/Microsoft.Network/virtualNetworks''" vnet_down_world "''s''" "''token''" ?r] 1 3 4
  have a: "map_of (get_network_resources vnet_down_world ''s'' ''token'') ''virtual_networks'' =
      Some empty_entry"
    and b: "\<forall>kp \<in> set resources.
              map_of (get_network_resources vnet_down_world ''s'' ''token'') (fst kp) =
                Some (collect_kind vnet_down_world ''s'' ''token'' (snd kp) empty_entry)"
    by blast+
  from b 2 have "map_of (get_network_resources vnet_down_world ''s'' ''token'') ''public_ips'' =
      Some (collect_kind vnet_down_world ''s'' ''token''
              ''/providers/Microsoft.Network/publicIPAddresses'' empty_entry)"
    by fastforce
  with a show ?thesis
    by (simp add: vnet_down_public_ips [unfolded empty_entry_def] empty_entry_def)
qed

text \<open>
  C1 as first stated fails for storage accounts: the token provider succeeds, the
  listing of storage accounts is answered with status 500, and the run aborts.
\<close>

theorem storage_listing_failure_aborts:
  "get_token error_world = Inr ''token''
   \<and> requests_get error_world (storage_accounts_url subscription_id) (bearer ''token'') =
       Inr \<lparr>status_code = 500, body = None\<rparr>
   \<and> main error_world = Inl HTTPError
   \<and> exit_code (main error_world) = Some 1"
  by (simp add: error_world_def constant_world_def get_token_def main_def
      get_storage_accounts_def raise_for_status_def exit_code_def)

end
